theory Spec2Isabelle
  imports Complex_Main
begin

section \<open>Data model\<close>

text \<open>
  The advertisement broadcaster of
  \<^verbatim>\<open>internal/advertisementoperator/broadcaster/broadcaster.go\<close>.
  Kubernetes objects are records holding the fields the broadcaster reads or writes;
  the fields of the embedded \<^verbatim>\<open>metav1.ObjectMeta\<close> are inherited by record extension, as
  Go promotes them (\<^verbatim>\<open>adv.Name\<close>, \<^verbatim>\<open>pod.Labels\<close>). Where two Go types have a field
  of the same name the field is written with its record's name in front
  (\<open>AdvResources.Images\<close>, \<open>AdvertisementSpec.Images\<close>).

  A \<^verbatim>\<open>resource.Quantity\<close> is an exact decimal number; it is a rational here, and a
  \<^verbatim>\<open>corev1.ResourceList\<close> is a map from resource names to quantities. A Go map that is
  \<^verbatim>\<open>nil\<close> reads as the empty map; only \<^verbatim>\<open>pod.Labels\<close>, which the code compares with
  \<^verbatim>\<open>nil\<close>, keeps the difference. A \<^verbatim>\<open>time.Time\<close> and a \<^verbatim>\<open>time.Duration\<close> are integers
  counting nanoseconds. Pointers to structs are the structs: the lists of
  \<^verbatim>\<open>AdvResources\<close> and the secret of the broadcaster are set by the code before their
  first use.
\<close>

type_synonym Quantity = rat
type_synonym ResourceList = "string \<rightharpoonup> Quantity"
type_synonym Time = int
type_synonym Duration = int

definition Minute :: Duration where
  "Minute = 60 * 1000000000"

datatype OwnerReference = OwnerReference string string string string

record SecretReference =
  Namespace :: string
  Name :: string

record ObjectMeta =
  Name :: string
  Namespace :: string
  ResourceVersion :: string
  UID :: string
  Labels :: "(string \<rightharpoonup> string) option"
  OwnerReferences :: "OwnerReference list"

record Secret = ObjectMeta +
  StringData :: "string \<rightharpoonup> string"

record ContainerImage =
  Names :: "string list"
  SizeBytes :: int

record Node = ObjectMeta +
  Allocatable :: ResourceList
  Images :: "ContainerImage list"

record Container =
  Requests :: ResourceList
  Limits :: ResourceList

record Pod = ObjectMeta +
  NodeName :: string
  Containers :: "Container list"

record LimitRangeItem =
  Type :: string
  Max :: ResourceList
  Min :: ResourceList
  Default :: ResourceList
  DefaultRequest :: ResourceList
  MaxLimitRequestRatio :: ResourceList

record LimitRangeSpec =
  Limits :: "LimitRangeItem list"

record ResourceQuotaSpec =
  Hard :: ResourceList
  Scopes :: "string list"
  ScopeSelector :: "string option"

record AdvertisementSpec =
  ClusterId :: string
  Images :: "ContainerImage list"
  LimitRange :: LimitRangeSpec
  ResourceQuota :: ResourceQuotaSpec
  Labels :: "string \<rightharpoonup> string"
  Neighbors :: "string \<rightharpoonup> ResourceList"
  Properties :: "string \<rightharpoonup> string"
  Prices :: ResourceList
  KubeConfigRef :: SecretReference
  Timestamp :: Time
  TimeToLive :: Time

record Advertisement = ObjectMeta +
  Kind :: string
  APIVersion :: string
  Spec :: AdvertisementSpec

record PeeringRequest = ObjectMeta +
  SpecNamespace :: string
  SpecKubeConfigRef :: SecretReference

text \<open>
  What a \<^verbatim>\<open>crdclient\<close> resource call returns is a \<^verbatim>\<open>runtime.Object\<close>: the code
  finds out its dynamic type with a type assertion.
\<close>

datatype Object = AdvertisementObj Advertisement | PeeringRequestObj PeeringRequest | OtherObj

record LabelPolicy =
  Key :: string
  Policy :: string

record ClusterConfigSpec =
  ResourceSharingPercentage :: int
  LabelPolicies :: "LabelPolicy list"

datatype Client = Client nat

datatype Config = Config nat

text \<open>
  The struct \<^verbatim>\<open>AdvertisementBroadcaster\<close>. Its mutex serialises callers of
  \<^verbatim>\<open>SendAdvertisementToForeignCluster\<close>; one caller at a time is what the model runs, so
  the mutex has no field.
\<close>

record AdvertisementBroadcaster =
  LocalClient :: Client
  DiscoveryClient :: Client
  KubeconfigSecretForForeign :: Secret
  RemoteClient :: Client
  HomeClusterID :: string
  ForeignClusterID :: string
  PeeringRequestName :: string
  ClusterConfig :: ClusterConfigSpec

record AdvResources =
  PhysicalNodes :: "Node list"
  VirtualNodes :: "Node list"
  Availability :: ResourceList
  Limits :: ResourceList
  Images :: "ContainerImage list"
  Labels :: "string \<rightharpoonup> string"

section \<open>Errors\<close>

text \<open>
  A Go \<^verbatim>\<open>error\<close> is either a status error of the API machinery, which carries its
  reason, or any other error. \<^verbatim>\<open>k8serrors.IsNotFound\<close> holds of the status errors whose
  reason is not-found. A function that can also panic (a failed type assertion) returns a
  \<open>result\<close>.
\<close>

datatype StatusReason =
  StatusReasonNotFound | StatusReasonAlreadyExists | StatusReasonConflict | StatusReasonUnknown

datatype error = StatusError StatusReason | ErrorString string

fun IsNotFound :: "error \<Rightarrow> bool" where
  "IsNotFound (StatusError r) = (r = StatusReasonNotFound)"
| "IsNotFound (ErrorString m) = False"

datatype 'a result = Ok 'a | Err error | Panic

section \<open>The outside world\<close>

text \<open>
  Every call that leaves the process (to a cluster's API server, to the clock, to the
  scheduler) is recorded in a trace, the state the functions pass along. What a call
  answers is given by an environment: for each operation a function of the calls made so
  far and the arguments. The environment is arbitrary, so a theorem for every environment
  holds whatever the clusters answer, and the same call may answer differently at different
  times.
\<close>

datatype call =
    CreateAdvertisementClient string "Secret option"
  | NewKubeconfig string
  | NewFromConfig Config
  | ResourceGet Client string string
  | ResourceCreate Client string Object
  | ResourceUpdate Client string string Object
  | ResourceDelete Client string string
  | SecretsGet Client string string
  | SecretsCreate Client string Secret
  | SecretsUpdate Client string Secret
  | NodesList Client string
  | PodsList Client string string
  | CreateKubeConfig Client string string
  | TimeNow
  | Sleep Duration
  | WatchConfiguration string
  | GoWatchAdvertisement string

record env =
  createAdvertisementClient :: "call list \<Rightarrow> string \<Rightarrow> Secret option \<Rightarrow> error + Client"
  newKubeconfig :: "call list \<Rightarrow> string \<Rightarrow> error + Config"
  newFromConfig :: "call list \<Rightarrow> Config \<Rightarrow> error + Client"
  resourceGet :: "call list \<Rightarrow> Client \<Rightarrow> string \<Rightarrow> string \<Rightarrow> error + Object"
  resourceCreate :: "call list \<Rightarrow> Client \<Rightarrow> string \<Rightarrow> Object \<Rightarrow> error + Object"
  resourceUpdate :: "call list \<Rightarrow> Client \<Rightarrow> string \<Rightarrow> string \<Rightarrow> Object \<Rightarrow> error + Object"
  resourceDelete :: "call list \<Rightarrow> Client \<Rightarrow> string \<Rightarrow> string \<Rightarrow> error option"
  secretsGet :: "call list \<Rightarrow> Client \<Rightarrow> string \<Rightarrow> string \<Rightarrow> error + Secret"
  secretsCreate :: "call list \<Rightarrow> Client \<Rightarrow> string \<Rightarrow> Secret \<Rightarrow> error + Secret"
  secretsUpdate :: "call list \<Rightarrow> Client \<Rightarrow> string \<Rightarrow> Secret \<Rightarrow> error + Secret"
  nodesList :: "call list \<Rightarrow> Client \<Rightarrow> string \<Rightarrow> error + Node list"
  podsList :: "call list \<Rightarrow> Client \<Rightarrow> string \<Rightarrow> string \<Rightarrow> error + Pod list"
  createKubeConfig :: "call list \<Rightarrow> Client \<Rightarrow> string \<Rightarrow> string \<Rightarrow> error + string"
  timeNow :: "call list \<Rightarrow> Time"
  watchedConfig :: "call list \<Rightarrow> ClusterConfigSpec"

text \<open>
  Two kinds of calls that the theorems count in a trace: the creation of a client from a
  secret (the client to the remote cluster) and the start of the watcher.
\<close>

fun isRemoteClientCreation :: "call \<Rightarrow> bool" where
  "isRemoteClientCreation (CreateAdvertisementClient path (Some secret)) = True"
| "isRemoteClientCreation other = False"

fun isWatchStart :: "call \<Rightarrow> bool" where
  "isWatchStart (GoWatchAdvertisement advName) = True"
| "isWatchStart other = False"

text \<open>A call answers from the environment and extends the trace.\<close>

definition callCreateAdvertisementClient ::
  "env \<Rightarrow> string \<Rightarrow> Secret option \<Rightarrow> call list \<Rightarrow> (error + Client) \<times> call list" where
  "callCreateAdvertisementClient e path secret t =
     (createAdvertisementClient e t path secret, t @ [CreateAdvertisementClient path secret])"

definition callNewKubeconfig ::
  "env \<Rightarrow> string \<Rightarrow> call list \<Rightarrow> (error + Config) \<times> call list" where
  "callNewKubeconfig e path t = (newKubeconfig e t path, t @ [NewKubeconfig path])"

definition callNewFromConfig ::
  "env \<Rightarrow> Config \<Rightarrow> call list \<Rightarrow> (error + Client) \<times> call list" where
  "callNewFromConfig e config t = (newFromConfig e t config, t @ [NewFromConfig config])"

definition callResourceGet ::
  "env \<Rightarrow> Client \<Rightarrow> string \<Rightarrow> string \<Rightarrow> call list \<Rightarrow> (error + Object) \<times> call list" where
  "callResourceGet e c api name t =
     (resourceGet e t c api name, t @ [ResourceGet c api name])"

definition callResourceCreate ::
  "env \<Rightarrow> Client \<Rightarrow> string \<Rightarrow> Object \<Rightarrow> call list \<Rightarrow> (error + Object) \<times> call list" where
  "callResourceCreate e c api obj t =
     (resourceCreate e t c api obj, t @ [ResourceCreate c api obj])"

definition callResourceUpdate ::
  "env \<Rightarrow> Client \<Rightarrow> string \<Rightarrow> string \<Rightarrow> Object \<Rightarrow> call list \<Rightarrow> (error + Object) \<times> call list" where
  "callResourceUpdate e c api name obj t =
     (resourceUpdate e t c api name obj, t @ [ResourceUpdate c api name obj])"

definition callResourceDelete ::
  "env \<Rightarrow> Client \<Rightarrow> string \<Rightarrow> string \<Rightarrow> call list \<Rightarrow> error option \<times> call list" where
  "callResourceDelete e c api name t =
     (resourceDelete e t c api name, t @ [ResourceDelete c api name])"

definition callSecretsGet ::
  "env \<Rightarrow> Client \<Rightarrow> string \<Rightarrow> string \<Rightarrow> call list \<Rightarrow> (error + Secret) \<times> call list" where
  "callSecretsGet e c ns name t = (secretsGet e t c ns name, t @ [SecretsGet c ns name])"

definition callSecretsCreate ::
  "env \<Rightarrow> Client \<Rightarrow> string \<Rightarrow> Secret \<Rightarrow> call list \<Rightarrow> (error + Secret) \<times> call list" where
  "callSecretsCreate e c ns secret t =
     (secretsCreate e t c ns secret, t @ [SecretsCreate c ns secret])"

definition callSecretsUpdate ::
  "env \<Rightarrow> Client \<Rightarrow> string \<Rightarrow> Secret \<Rightarrow> call list \<Rightarrow> (error + Secret) \<times> call list" where
  "callSecretsUpdate e c ns secret t =
     (secretsUpdate e t c ns secret, t @ [SecretsUpdate c ns secret])"

definition callNodesList ::
  "env \<Rightarrow> Client \<Rightarrow> string \<Rightarrow> call list \<Rightarrow> (error + Node list) \<times> call list" where
  "callNodesList e c selector t = (nodesList e t c selector, t @ [NodesList c selector])"

definition callPodsList ::
  "env \<Rightarrow> Client \<Rightarrow> string \<Rightarrow> string \<Rightarrow> call list \<Rightarrow> (error + Pod list) \<times> call list" where
  "callPodsList e c ns selector t =
     (podsList e t c ns selector, t @ [PodsList c ns selector])"

definition callCreateKubeConfig ::
  "env \<Rightarrow> Client \<Rightarrow> string \<Rightarrow> string \<Rightarrow> call list \<Rightarrow> (error + string) \<times> call list" where
  "callCreateKubeConfig e c saName ns t =
     (createKubeConfig e t c saName ns, t @ [CreateKubeConfig c saName ns])"

definition callTimeNow :: "env \<Rightarrow> call list \<Rightarrow> Time \<times> call list" where
  "callTimeNow e t = (timeNow e t, t @ [TimeNow])"

definition callSleep :: "Duration \<Rightarrow> call list \<Rightarrow> call list" where
  "callSleep dur t = t @ [Sleep dur]"

section \<open>Declarations outside the file\<close>

text \<open>
  The file calls pure helpers and reads constants that are declared elsewhere: in other
  files of the repository (\<^verbatim>\<open>GetNodeImages\<close>, \<^verbatim>\<open>ComputePrices\<close>, \<^verbatim>\<open>GetLabels\<close>,
  \<^verbatim>\<open>utils.GetOwnerReference\<close>, \<^verbatim>\<open>forge.LiqoOutgoingKey\<close>, \<^verbatim>\<open>liqoconst.TypeLabel\<close>,
  \<^verbatim>\<open>liqoconst.TypeNode\<close>, \<^verbatim>\<open>advtypes.GroupVersion\<close>) and in libraries
  (\<^verbatim>\<open>resourcehelper.PodRequestsAndLimits\<close>, \<^verbatim>\<open>fields.ParseSelector\<close>, whose result is
  kept as the string the selector prints). The functions of the file take them as a
  parameter, so that a theorem holds whatever they are.
\<close>

record deps =
  LiqoOutgoingKey :: string
  TypeLabel :: string
  TypeNode :: string
  GroupVersion :: string
  PodRequestsAndLimits :: "Pod \<Rightarrow> ResourceList \<times> ResourceList"
  ParseSelector :: "string \<Rightarrow> error + string"
  GetNodeImages :: "Node \<Rightarrow> ContainerImage list"
  ComputePrices :: "ContainerImage list \<Rightarrow> ResourceList"
  GetLabels :: "Node list \<Rightarrow> LabelPolicy list \<Rightarrow> (string \<rightharpoonup> string)"
  GetOwnerReference :: "Advertisement \<Rightarrow> OwnerReference list"

text \<open>
  Modelled from the spec: the constant \<^verbatim>\<open>pkg.AdvertisementPrefix\<close> is declared in
  \<^verbatim>\<open>pkg/virtualKubelet\<close>, outside the source file; the spec gives the advertisement's name
  as \<^verbatim>\<open>adv-<home-cluster-id>\<close>.
\<close>

definition AdvertisementPrefix :: string where
  "AdvertisementPrefix = ''adv-''"

text \<open>
  Modelled from the spec: the constant \<^verbatim>\<open>pkg.VirtualKubeletSecPrefix\<close> is declared in
  \<^verbatim>\<open>pkg/virtualKubelet\<close>, outside the source file; the spec gives the secret's name as
  \<^verbatim>\<open>vk-secret-<home-cluster-id>\<close>.
\<close>

definition VirtualKubeletSecPrefix :: string where
  "VirtualKubeletSecPrefix = ''vk-secret-''"

text \<open>The constants \<^verbatim>\<open>corev1.PodSucceeded\<close> and \<^verbatim>\<open>corev1.PodFailed\<close> of the Kubernetes API.\<close>

definition PodSucceeded :: string where
  "PodSucceeded = ''Succeeded''"

definition PodFailed :: string where
  "PodFailed = ''Failed''"

text \<open>
  \<^verbatim>\<open>strings.HasPrefix\<close> of Go's library, as it is defined there:
  \<^verbatim>\<open>len(s) >= len(prefix) && s[:len(prefix)] == prefix\<close>.
\<close>

definition HasPrefix :: "string \<Rightarrow> string \<Rightarrow> bool" where
  "HasPrefix s p = (length p \<le> length s \<and> take (length p) s = p)"

text \<open>The quantity a resource list holds for a resource class; a class it lacks holds zero.\<close>

definition qty :: "ResourceList \<Rightarrow> string \<Rightarrow> Quantity" where
  "qty rl R = (case rl R of None \<Rightarrow> 0 | Some q \<Rightarrow> q)"

section \<open>Resource accounting\<close>

text \<open>The zero value \<^verbatim>\<open>corev1.Pod{}\<close>.\<close>

definition emptyPod :: Pod where
  "emptyPod = \<lparr>Name = [], Namespace = [], ResourceVersion = [], UID = [],
     ObjectMeta.Labels = None, OwnerReferences = [], NodeName = [], Containers = []\<rparr>"

text \<open>
  The test of the first loop of \<^verbatim>\<open>GetAllPodsResources\<close>: the pod's node has a name that
  starts with \<^verbatim>\<open>liqo-\<close> (the code's test for a virtual node), or else the pod has labels
  and one of them has the key \<^verbatim>\<open>forge.LiqoOutgoingKey\<close>.
\<close>

definition excludedPod :: "deps \<Rightarrow> Pod \<Rightarrow> bool" where
  "excludedPod d pod =
     (if HasPrefix (NodeName pod) ''liqo-'' then True
      else (case ObjectMeta.Labels pod of
              None \<Rightarrow> False
            | Some labels \<Rightarrow> labels (LiqoOutgoingKey d) \<noteq> None))"




text \<open>
  The first loop overwrites the items of the caller's list in place; \<open>overwriteItems\<close> is
  the list it leaves.
\<close>

definition overwriteItems :: "deps \<Rightarrow> Pod list \<Rightarrow> Pod list" where
  "overwriteItems d items = map (\<lambda>pod. if excludedPod d pod then emptyPod else pod) items"

text \<open>
  The inner loops of \<^verbatim>\<open>getPodsTotalRequestsAndLimits\<close> and the loop of
  \<^verbatim>\<open>addResourceLists\<close> range over a map and touch, for each of its keys, the total's entry
  of that key only: the order of the keys does not matter, and the loop is the key-wise
  update.
\<close>

definition addQuantities :: "ResourceList \<Rightarrow> ResourceList \<Rightarrow> ResourceList" where
  "addQuantities totals podValues =
     (\<lambda>name. case podValues name of
                None \<Rightarrow> totals name
              | Some podValue \<Rightarrow>
                  (case totals name of
                     None \<Rightarrow> Some podValue
                   | Some v \<Rightarrow> Some (v + podValue)))"

fun podsLoop :: "deps \<Rightarrow> Pod list \<Rightarrow> ResourceList \<times> ResourceList \<Rightarrow> ResourceList \<times> ResourceList" where
  "podsLoop d [] (reqs, limits) = (reqs, limits)"
| "podsLoop d (pod # pods) (reqs, limits) =
     (case PodRequestsAndLimits d pod of
        (podReqs, podLimits) \<Rightarrow>
          podsLoop d pods (addQuantities reqs podReqs, addQuantities limits podLimits))"

definition getPodsTotalRequestsAndLimits :: "deps \<Rightarrow> Pod list \<Rightarrow> ResourceList \<times> ResourceList" where
  "getPodsTotalRequestsAndLimits d items = podsLoop d items (Map.empty, Map.empty)"

definition GetAllPodsResources :: "deps \<Rightarrow> Pod list \<Rightarrow> ResourceList \<times> ResourceList" where
  "GetAllPodsResources d items = getPodsTotalRequestsAndLimits d (overwriteItems d items)"

definition addResourceLists :: "ResourceList \<Rightarrow> ResourceList \<Rightarrow> ResourceList" where
  "addResourceLists dst toAdd =
     (\<lambda>k. case toAdd k of
             None \<Rightarrow> dst k
           | Some v \<Rightarrow>
               (case dst k of
                  Some qnt \<Rightarrow> Some (qnt + v)
                | None \<Rightarrow> Some v))"

fun nodesLoop ::
  "deps \<Rightarrow> Node list \<Rightarrow> ResourceList \<times> ContainerImage list \<Rightarrow> ResourceList \<times> ContainerImage list" where
  "nodesLoop d [] (availability, clusterImages) = (availability, clusterImages)"
| "nodesLoop d (node # nodes) (availability, clusterImages) =
     nodesLoop d nodes
       (addResourceLists availability (Allocatable node), clusterImages @ GetNodeImages d node)"

definition GetClusterResources :: "deps \<Rightarrow> Node list \<Rightarrow> ResourceList \<times> ContainerImage list" where
  "GetClusterResources d nodes = nodesLoop d nodes (Map.empty, [])"

text \<open>
  Modelled from the spec: \<^verbatim>\<open>ComputeAnnouncedResources\<close> is a function of the package that
  is declared outside the source file. The spec: for each physical node, accumulate
  allocatable capacity; compute availability per resource class as
  \<^verbatim>\<open>allocatable * sharingPercentage/100 - consumed-requests\<close>, never going below zero;
  collect container image references per physical node into the inventory. The capacity and
  the inventory are those of \<^verbatim>\<open>GetClusterResources\<close>, which the file defines; a resource
  class is one that the capacity or the consumption names.
\<close>

definition ComputeAnnouncedResources ::
  "deps \<Rightarrow> Node list \<Rightarrow> ResourceList \<Rightarrow> int \<Rightarrow> ResourceList \<times> ContainerImage list" where
  "ComputeAnnouncedResources d physicalNodes reqs sharingPercentage =
     (case GetClusterResources d physicalNodes of
        (allocatable, images) \<Rightarrow>
          ((\<lambda>R. if allocatable R = None \<and> reqs R = None then None
                 else Some (max 0 (qty allocatable R * of_int sharingPercentage / 100 - qty reqs R))),
           images))"

definition GetResourcesForAdv ::
  "deps \<Rightarrow> env \<Rightarrow> AdvertisementBroadcaster \<Rightarrow> call list \<Rightarrow> (error + AdvResources) \<times> call list" where
  "GetResourcesForAdv d e b t =
     (case callNodesList e (LocalClient b) (TypeLabel d @ '' != '' @ TypeNode d) t of
        (Inl err, t1) \<Rightarrow> (Inl err, t1)
      | (Inr physicalNodes, t1) \<Rightarrow>
     (case callNodesList e (LocalClient b) (TypeLabel d @ '' = '' @ TypeNode d) t1 of
        (Inl err, t2) \<Rightarrow> (Inl err, t2)
      | (Inr virtualNodes, t2) \<Rightarrow>
     (case ParseSelector d (''status.phase!='' @ PodSucceeded @ '',status.phase!='' @ PodFailed) of
        Inl err \<Rightarrow> (Inl err, t2)
      | Inr fieldSelector \<Rightarrow>
     (case callPodsList e (LocalClient b) [] fieldSelector t2 of
        (Inl err, t3) \<Rightarrow> (Inl err, t3)
      | (Inr nodeNonTerminatedPodsList, t3) \<Rightarrow>
     (case GetAllPodsResources d nodeNonTerminatedPodsList of
        (reqs, limits) \<Rightarrow>
     (case ComputeAnnouncedResources d physicalNodes reqs
             (ResourceSharingPercentage (ClusterConfig b)) of
        (availability, images) \<Rightarrow>
          (let labels = GetLabels d physicalNodes (LabelPolicies (ClusterConfig b)) in
           (Inr \<lparr>PhysicalNodes = physicalNodes, VirtualNodes = virtualNodes,
                  Availability = availability, AdvResources.Limits = limits,
                  AdvResources.Images = images, AdvResources.Labels = labels\<rparr>, t3))))))))"

section \<open>CreateAdvertisement\<close>

text \<open>
  The loop that builds the neighbours stores, for each virtual node in turn, the node's
  allocatable resources under the node's name. The advertisement reads the clock twice, for
  the timestamp and then for the time to live.
\<close>

fun neighborsLoop ::
  "Node list \<Rightarrow> (string \<rightharpoonup> ResourceList) \<Rightarrow> (string \<rightharpoonup> ResourceList)" where
  "neighborsLoop [] neighbors = neighbors"
| "neighborsLoop (vnode # vnodes) neighbors =
     neighborsLoop vnodes (neighbors(Name vnode \<mapsto> Allocatable vnode))"

definition CreateAdvertisement ::
  "deps \<Rightarrow> env \<Rightarrow> AdvertisementBroadcaster \<Rightarrow> AdvResources \<Rightarrow> call list \<Rightarrow> Advertisement \<times> call list" where
  "CreateAdvertisement d e b advRes t =
     (let prices = ComputePrices d (AdvResources.Images advRes);
          neighbors = neighborsLoop (VirtualNodes advRes) Map.empty
      in case callTimeNow e t of (now1, t1) \<Rightarrow>
         case callTimeNow e t1 of (now2, t2) \<Rightarrow>
        (\<lparr>Name = AdvertisementPrefix @ HomeClusterID b, Namespace = [], ResourceVersion = [],
          UID = [], ObjectMeta.Labels = None, OwnerReferences = [],
          Kind = [], APIVersion = [],
          Spec = \<lparr>ClusterId = HomeClusterID b,
                   AdvertisementSpec.Images = AdvResources.Images advRes,
                   LimitRange = \<lparr>LimitRangeSpec.Limits =
                     [\<lparr>Type = [], Max = AdvResources.Limits advRes, Min = Map.empty,
                       Default = Map.empty, DefaultRequest = Map.empty,
                       MaxLimitRequestRatio = Map.empty\<rparr>]\<rparr>,
                   ResourceQuota = \<lparr>Hard = Availability advRes, Scopes = [],
                                     ScopeSelector = None\<rparr>,
                   AdvertisementSpec.Labels = AdvResources.Labels advRes,
                   Neighbors = neighbors,
                   Properties = Map.empty,
                   Prices = prices,
                   KubeConfigRef =
                     \<lparr>SecretReference.Namespace = Namespace (KubeconfigSecretForForeign b),
                      SecretReference.Name = Name (KubeconfigSecretForForeign b)\<rparr>,
                   Timestamp = now1,
                   TimeToLive = now2 + 30 * Minute\<rparr>\<rparr>, t2))"

section \<open>Sending the advertisement and the secret\<close>

text \<open>The assignment \<^verbatim>\<open>advToCreate.ObjectMeta = adv.ObjectMeta\<close>.\<close>

definition setObjectMeta :: "Advertisement \<Rightarrow> Advertisement \<Rightarrow> Advertisement" where
  "setObjectMeta advToCreate adv =
     advToCreate\<lparr>Name := Name adv, Namespace := Namespace adv,
       ResourceVersion := ResourceVersion adv, UID := UID adv,
       ObjectMeta.Labels := ObjectMeta.Labels adv, OwnerReferences := OwnerReferences adv\<rparr>"

text \<open>
  \<^verbatim>\<open>SendAdvertisementToForeignCluster\<close>. The type assertion
  \<^verbatim>\<open>obj.(*advtypes.Advertisement)\<close> panics on an object of another type. In the branch that
  creates the advertisement, the error of the update of the secret is logged and then
  dropped: both of its outcomes return the advertisement.
\<close>

definition SendAdvertisementToForeignCluster ::
  "deps \<Rightarrow> env \<Rightarrow> AdvertisementBroadcaster \<Rightarrow> Advertisement \<Rightarrow> call list \<Rightarrow>
     Advertisement result \<times> call list" where
  "SendAdvertisementToForeignCluster d e b advToCreate t =
     (case callResourceGet e (RemoteClient b) ''advertisements'' (Name advToCreate) t of
        (Inr obj, t1) \<Rightarrow>
          (case obj of
             AdvertisementObj adv \<Rightarrow>
               (case callResourceUpdate e (RemoteClient b) ''advertisements'' (Name adv)
                       (AdvertisementObj (setObjectMeta advToCreate adv)) t1 of
                  (Inl err, t2) \<Rightarrow> (Err err, t2)
                | (Inr updated, t2) \<Rightarrow> (Ok adv, t2))
           | PeeringRequestObj pr \<Rightarrow> (Panic, t1)
           | OtherObj \<Rightarrow> (Panic, t1))
      | (Inl err, t1) \<Rightarrow>
          if IsNotFound err then
            (case callSecretsGet e (RemoteClient b) (Namespace (KubeconfigSecretForForeign b))
                    (Name (KubeconfigSecretForForeign b)) t1 of
               (Inl err, t2) \<Rightarrow> (Err err, t2)
             | (Inr secretForeign, t2) \<Rightarrow>
            (case callResourceCreate e (RemoteClient b) ''advertisements''
                    (AdvertisementObj advToCreate) t2 of
               (Inl err, t3) \<Rightarrow> (Err err, t3)
             | (Inr obj, t3) \<Rightarrow>
            (case obj of
               AdvertisementObj created \<Rightarrow>
                 (let adv = created\<lparr>Kind := ''Advertisement'', APIVersion := GroupVersion d\<rparr>;
                      secretForeign = secretForeign\<lparr>OwnerReferences := GetOwnerReference d adv\<rparr>
                  in case callSecretsUpdate e (RemoteClient b) (Namespace secretForeign)
                            secretForeign t3 of
                       (Inl err, t4) \<Rightarrow> (Ok adv, t4)
                     | (Inr updated, t4) \<Rightarrow> (Ok adv, t4))
             | PeeringRequestObj pr \<Rightarrow> (Panic, t3)
             | OtherObj \<Rightarrow> (Panic, t3))))
          else (Err err, t1))"

text \<open>
  \<^verbatim>\<open>SendSecretToForeignCluster\<close> writes the resource version and the UID into the secret
  it is given, which is the broadcaster's own: the function returns the secret as it leaves
  it, next to its result.
\<close>

definition SendSecretToForeignCluster ::
  "env \<Rightarrow> AdvertisementBroadcaster \<Rightarrow> Secret \<Rightarrow> call list \<Rightarrow>
     ((error + Secret) \<times> Secret) \<times> call list" where
  "SendSecretToForeignCluster e b secret t =
     (case callSecretsGet e (RemoteClient b) (Namespace secret) (Name secret) t of
        (Inr secretForeign, t1) \<Rightarrow>
          (let secret = secret\<lparr>ResourceVersion := ResourceVersion secretForeign,
                               UID := UID secretForeign\<rparr>
           in case callSecretsUpdate e (RemoteClient b) (Namespace secret) secret t1 of
                (Inl err, t2) \<Rightarrow> ((Inl err, secret), t2)
              | (Inr secretForeign, t2) \<Rightarrow> ((Inr secretForeign, secret), t2))
      | (Inl err, t1) \<Rightarrow>
          if IsNotFound err then
            (let secret = secret\<lparr>ResourceVersion := [], UID := []\<rparr>
             in case callSecretsCreate e (RemoteClient b) (Namespace secret) secret t1 of
                  (Inl err, t2) \<Rightarrow> ((Inl err, secret), t2)
                | (Inr secretForeign, t2) \<Rightarrow> ((Inr secretForeign, secret), t2))
          else ((Inl err, secret), t1))"

section \<open>GenerateAdvertisement\<close>

text \<open>
  The state of the loop: the broadcaster, the latch of the \<^verbatim>\<open>sync.Once\<close>, the trace, and
  whether an iteration has panicked. \<^verbatim>\<open>go once.Do(f)\<close> runs \<open>f\<close> in a goroutine when the
  latch is open and closes it, and does nothing when it is closed; the start of the watcher
  is recorded in the trace where the goroutine is started. The configuration watcher that
  \<^verbatim>\<open>StartBroadcaster\<close> starts (outside the file) replaces \<^verbatim>\<open>ClusterConfig\<close> while the loop
  runs: an iteration reads the configuration the environment has at its start.
\<close>

record loopState =
  broadcaster :: AdvertisementBroadcaster
  onceDone :: bool
  trace :: "call list"
  panicked :: bool

definition onceDo :: "string \<Rightarrow> bool \<Rightarrow> call list \<Rightarrow> bool \<times> call list" where
  "onceDo advName done t = (if done then (True, t) else (True, t @ [GoWatchAdvertisement advName]))"

text \<open>
  The steps of the loop's body that can fail: sending the secret, computing the resources,
  and creating and sending the advertisement. The body handles each failure alike (it logs,
  sleeps a minute and continues), so the steps return the error or the advertisement sent.
\<close>

definition publish ::
  "deps \<Rightarrow> env \<Rightarrow> AdvertisementBroadcaster \<Rightarrow> call list \<Rightarrow>
     (Advertisement result \<times> AdvertisementBroadcaster) \<times> call list" where
  "publish d e b t =
     (case SendSecretToForeignCluster e b (KubeconfigSecretForForeign b) t of
        ((Inl err, secret), t1) \<Rightarrow> ((Err err, b\<lparr>KubeconfigSecretForForeign := secret\<rparr>), t1)
      | ((Inr sent, secret), t1) \<Rightarrow>
     (let b = b\<lparr>KubeconfigSecretForForeign := secret\<rparr> in
      case GetResourcesForAdv d e b t1 of
        (Inl err, t2) \<Rightarrow> ((Err err, b), t2)
      | (Inr advRes, t2) \<Rightarrow>
     (case CreateAdvertisement d e b advRes t2 of
        (advToCreate, t3) \<Rightarrow>
     (case SendAdvertisementToForeignCluster d e b advToCreate t3 of
        (sent, t4) \<Rightarrow> ((sent, b), t4)))))"

definition iteration :: "deps \<Rightarrow> env \<Rightarrow> loopState \<Rightarrow> loopState" where
  "iteration d e s =
     (let b = (broadcaster s)\<lparr>ClusterConfig := watchedConfig e (trace s)\<rparr> in
      case publish d e b (trace s) of
        ((Err err, b), t4) \<Rightarrow> s\<lparr>broadcaster := b, trace := callSleep (1 * Minute) t4\<rparr>
      | ((Panic, b), t4) \<Rightarrow> s\<lparr>broadcaster := b, trace := t4, panicked := True\<rparr>
      | ((Ok adv, b), t4) \<Rightarrow>
          (case onceDo (Name adv) (onceDone s) t4 of
             (done, t5) \<Rightarrow>
               s\<lparr>broadcaster := b, onceDone := done,
                 trace := callSleep (10 * Minute) t5\<rparr>))"

text \<open>
  The loop has no exit: it runs until the process ends or an iteration panics. The model
  runs a given number of iterations from a state, so a statement for every number of
  iterations is a statement about every finite part of the run.
\<close>

fun GenerateAdvertisement :: "nat \<Rightarrow> deps \<Rightarrow> env \<Rightarrow> loopState \<Rightarrow> loopState" where
  "GenerateAdvertisement 0 d e s = s"
| "GenerateAdvertisement (Suc n) d e s =
     (if panicked s then s else GenerateAdvertisement n d e (iteration d e s))"

text \<open>The state in which \<^verbatim>\<open>GenerateAdvertisement\<close> starts: \<^verbatim>\<open>var once sync.Once\<close>.\<close>

definition initialLoopState :: "AdvertisementBroadcaster \<Rightarrow> call list \<Rightarrow> loopState" where
  "initialLoopState b t = \<lparr>broadcaster = b, onceDone = False, trace = t, panicked = False\<rparr>"

section \<open>StartBroadcaster\<close>

text \<open>
  The loop that creates the client to the remote cluster:
  \<^verbatim>\<open>for retry = 0; retry < 3; retry++\<close>, left by \<^verbatim>\<open>break\<close> when a client is created. Its
  state is the counter, the client and the error; it returns them as the loop leaves them.
\<close>

function retryLoop ::
  "env \<Rightarrow> Secret \<Rightarrow> nat \<Rightarrow> Client option \<Rightarrow> error option \<Rightarrow> call list \<Rightarrow>
     nat \<times> Client option \<times> error option \<times> call list" where
  "retryLoop e secret retry remoteClient err t =
     (if retry < 3 then
        (case callCreateAdvertisementClient e [] (Some secret) t of
           (Inl err1, t1) \<Rightarrow>
             retryLoop e secret (retry + 1) None (Some err1) (callSleep (1 * Minute) t1)
         | (Inr c, t1) \<Rightarrow> (retry, Some c, None, t1))
      else (retry, remoteClient, err, t))"
  by pat_completeness auto
termination
  by (relation "measure (\<lambda>(e, secret, retry, remoteClient, err, t). 3 - retry)") auto

declare retryLoop.simps [simp del]

text \<open>
  \<^verbatim>\<open>StartBroadcaster\<close> up to its call of \<^verbatim>\<open>GenerateAdvertisement\<close>, which does not return:
  the function either returns an error, or reaches the loop with the broadcaster it has
  built; a client that is \<^verbatim>\<open>nil\<close> after the retries would panic at its first use. The
  secret is put into the broadcaster when the record is built, as no step reads it before.
\<close>

datatype startOutcome = Returned "error option" | StartPanic | Running AdvertisementBroadcaster

definition StartBroadcaster ::
  "env \<Rightarrow> string \<Rightarrow> string \<Rightarrow> string \<Rightarrow> string \<Rightarrow> call list \<Rightarrow> startOutcome \<times> call list" where
  "StartBroadcaster e homeClusterID localKubeconfigPath peeringRequestName saName t =
     (case callCreateAdvertisementClient e localKubeconfigPath None t of
        (Inl err, t1) \<Rightarrow> (Returned (Some err), t1)
      | (Inr localClient, t1) \<Rightarrow>
     (case callNewKubeconfig e localKubeconfigPath t1 of
        (Inl err, t2) \<Rightarrow> (Returned (Some err), t2)
      | (Inr config, t2) \<Rightarrow>
     (case callNewFromConfig e config t2 of
        (Inl err, t3) \<Rightarrow> (Returned (Some err), t3)
      | (Inr discoveryClient, t3) \<Rightarrow>
     (case callResourceGet e discoveryClient ''peeringrequests'' peeringRequestName t3 of
        (Inl err, t4) \<Rightarrow> (Returned (Some err), t4)
      | (Inr (AdvertisementObj a), t4) \<Rightarrow>
          (Returned (Some (ErrorString ''retrieved object is not a PeeringRequest'')), t4)
      | (Inr OtherObj, t4) \<Rightarrow>
          (Returned (Some (ErrorString ''retrieved object is not a PeeringRequest'')), t4)
      | (Inr (PeeringRequestObj pr), t4) \<Rightarrow>
     (case callSecretsGet e localClient (SecretReference.Namespace (SpecKubeConfigRef pr))
             (SecretReference.Name (SpecKubeConfigRef pr)) t4 of
        (Inl err, t5) \<Rightarrow> (Returned (Some err), t5)
      | (Inr secretForAdvertisementCreation, t5) \<Rightarrow>
     (case retryLoop e secretForAdvertisementCreation 0 None None t5 of
        (retry, remoteClient, err, t6) \<Rightarrow>
          if retry = 3 then (Returned err, t6)
          else
     (case remoteClient of
        None \<Rightarrow> (StartPanic, t6)
      | Some rc \<Rightarrow>
     (case callCreateKubeConfig e localClient saName (SpecNamespace pr) t6 of
        (Inl err, t7) \<Rightarrow> (Returned (Some err), t7)
      | (Inr kubeconfigForForeignCluster, t7) \<Rightarrow>
          (let kubeconfigSecretForForeign =
                 \<lparr>Name = VirtualKubeletSecPrefix @ homeClusterID,
                  Namespace = SpecNamespace pr, ResourceVersion = [], UID = [],
                  ObjectMeta.Labels = None, OwnerReferences = [],
                  StringData = [''kubeconfig'' \<mapsto> kubeconfigForForeignCluster]\<rparr>;
               broadcaster =
                 \<lparr>LocalClient = localClient, DiscoveryClient = discoveryClient,
                  KubeconfigSecretForForeign = kubeconfigSecretForForeign,
                  RemoteClient = rc, HomeClusterID = homeClusterID,
                  ForeignClusterID = Name pr, PeeringRequestName = peeringRequestName,
                  ClusterConfig = \<lparr>ResourceSharingPercentage = 0, LabelPolicies = []\<rparr>\<rparr>
           in case SendSecretToForeignCluster e broadcaster kubeconfigSecretForForeign t7 of
                ((Inl err, secret), t8) \<Rightarrow> (Returned (Some err), t8)
              | ((Inr sent, secret), t8) \<Rightarrow>
                  (Running (broadcaster\<lparr>KubeconfigSecretForForeign := secret\<rparr>),
                   t8 @ [WatchConfiguration localKubeconfigPath]))))))))))"

section \<open>NotifyAdvertisementDeletion\<close>

definition NotifyAdvertisementDeletion ::
  "env \<Rightarrow> AdvertisementBroadcaster \<Rightarrow> call list \<Rightarrow> error option \<times> call list" where
  "NotifyAdvertisementDeletion e b t =
     (let advName = AdvertisementPrefix @ HomeClusterID b in
      case callResourceDelete e (RemoteClient b) ''advertisements'' advName t of
        (Some err, t1) \<Rightarrow> (Some err, t1)
      | (None, t1) \<Rightarrow> (None, t1))"

section \<open>Instances for evaluation\<close>

text \<open>
  Concrete environments and inputs, at which the theorems below are evaluated. In
  \<open>failingEnv\<close> every call fails and the clock advances by one nanosecond per call.
\<close>

definition failingEnv :: env where
  "failingEnv =
     \<lparr>createAdvertisementClient = (\<lambda>t path secret. Inl (ErrorString ''unreachable'')),
      newKubeconfig = (\<lambda>t path. Inl (ErrorString ''unreachable'')),
      newFromConfig = (\<lambda>t config. Inl (ErrorString ''unreachable'')),
      resourceGet = (\<lambda>t c api name. Inl (ErrorString ''unreachable'')),
      resourceCreate = (\<lambda>t c api obj. Inl (ErrorString ''unreachable'')),
      resourceUpdate = (\<lambda>t c api name obj. Inl (ErrorString ''unreachable'')),
      resourceDelete = (\<lambda>t c api name. Some (ErrorString ''unreachable'')),
      secretsGet = (\<lambda>t c ns name. Inl (ErrorString ''unreachable'')),
      secretsCreate = (\<lambda>t c ns secret. Inl (ErrorString ''unreachable'')),
      secretsUpdate = (\<lambda>t c ns secret. Inl (ErrorString ''unreachable'')),
      nodesList = (\<lambda>t c selector. Inl (ErrorString ''unreachable'')),
      podsList = (\<lambda>t c ns selector. Inl (ErrorString ''unreachable'')),
      createKubeConfig = (\<lambda>t c saName ns. Inl (ErrorString ''unreachable'')),
      timeNow = (\<lambda>t. int (length t)),
      watchedConfig = (\<lambda>t. \<lparr>ResourceSharingPercentage = 50, LabelPolicies = []\<rparr>)\<rparr>"

text \<open>
  Modelled from the spec: the remote object store, which the client package
  \<^verbatim>\<open>crdClient\<close> (outside the source file) talks to. The spec: \<^verbatim>\<open>get(name) -> record | NotFound\<close>,
  \<^verbatim>\<open>create(record) -> record\<close> (fails if already exists), \<^verbatim>\<open>update(record) -> record\<close>,
  \<^verbatim>\<open>delete(name) -> () | NotFound\<close>. The store holds advertisements by name; its content
  after a trace is the initial content with the trace's calls applied.
\<close>

fun storeStep :: "(string \<rightharpoonup> Advertisement) \<Rightarrow> call \<Rightarrow> (string \<rightharpoonup> Advertisement)" where
  "storeStep s (ResourceCreate c api (AdvertisementObj a)) =
     (if api = ''advertisements'' \<and> s (Name a) = None then s(Name a \<mapsto> a) else s)"
| "storeStep s (ResourceUpdate c api name (AdvertisementObj a)) =
     (if api = ''advertisements'' \<and> s name \<noteq> None then s(name \<mapsto> a) else s)"
| "storeStep s (ResourceDelete c api name) =
     (if api = ''advertisements'' then s(name := None) else s)"
| "storeStep s other = s"

definition storeAfter :: "(string \<rightharpoonup> Advertisement) \<Rightarrow> call list \<Rightarrow> (string \<rightharpoonup> Advertisement)" where
  "storeAfter init t = foldl storeStep init t"

definition storeEnv :: "(string \<rightharpoonup> Advertisement) \<Rightarrow> env" where
  "storeEnv init =
     failingEnv
       \<lparr>resourceGet := (\<lambda>t c api name.
            case storeAfter init t name of
              None \<Rightarrow> Inl (StatusError StatusReasonNotFound)
            | Some a \<Rightarrow> Inr (AdvertisementObj a)),
        resourceCreate := (\<lambda>t c api obj.
            case obj of
              AdvertisementObj a \<Rightarrow>
                (case storeAfter init t (Name a) of
                   None \<Rightarrow> Inr obj
                 | Some old \<Rightarrow> Inl (StatusError StatusReasonAlreadyExists))
            | PeeringRequestObj pr \<Rightarrow> Inl (StatusError StatusReasonUnknown)
            | OtherObj \<Rightarrow> Inl (StatusError StatusReasonUnknown)),
        resourceUpdate := (\<lambda>t c api name obj.
            case storeAfter init t name of
              None \<Rightarrow> Inl (StatusError StatusReasonNotFound)
            | Some old \<Rightarrow> Inr obj),
        resourceDelete := (\<lambda>t c api name.
            case storeAfter init t name of
              None \<Rightarrow> Some (StatusError StatusReasonNotFound)
            | Some old \<Rightarrow> None)\<rparr>"

definition exampleSecret :: Secret where
  "exampleSecret =
     \<lparr>Name = ''vk-secret-home'', Namespace = ''liqo'', ResourceVersion = [], UID = [],
      ObjectMeta.Labels = None, OwnerReferences = [],
      StringData = [''kubeconfig'' \<mapsto> ''credential'']\<rparr>"

definition exampleBroadcaster :: AdvertisementBroadcaster where
  "exampleBroadcaster =
     \<lparr>LocalClient = Client 0, DiscoveryClient = Client 1,
      KubeconfigSecretForForeign = exampleSecret, RemoteClient = Client 2,
      HomeClusterID = ''home'', ForeignClusterID = ''foreign'',
      PeeringRequestName = ''foreign'',
      ClusterConfig = \<lparr>ResourceSharingPercentage = 50, LabelPolicies = []\<rparr>\<rparr>"

text \<open>
  An instance of the declarations outside the file. Its \<^verbatim>\<open>PodRequestsAndLimits\<close> sums the
  requests and the limits of a pod's containers; its \<^verbatim>\<open>ParseSelector\<close> prints the selector
  that the code parses with its terms sorted, as the library prints it; its constants are
  sample values.
\<close>

definition containersRequestsAndLimits :: "Pod \<Rightarrow> ResourceList \<times> ResourceList" where
  "containersRequestsAndLimits pod =
     (foldl addResourceLists Map.empty (map Requests (Containers pod)),
      foldl addResourceLists Map.empty (map Container.Limits (Containers pod)))"

text \<open>
  Modelled from the spec: \<^verbatim>\<open>GetNodeImages\<close> is a function of the package that is declared
  outside the source file. The spec: the image inventory is deduplicated by reference and
  collected per physical node. \<open>dedupImages\<close> keeps, of the images of one node, the last
  entry of each reference.
\<close>

fun dedupImages :: "ContainerImage list \<Rightarrow> ContainerImage list" where
  "dedupImages [] = []"
| "dedupImages (img # imgs) =
     (if Names img \<in> set (map Names imgs) then dedupImages imgs
      else img # dedupImages imgs)"

definition exampleDeps :: deps where
  "exampleDeps =
     \<lparr>LiqoOutgoingKey = ''virtualkubelet.liqo.io/outgoing'',
      TypeLabel = ''type'', TypeNode = ''virtual-node'',
      GroupVersion = ''sharing.liqo.io/v1alpha1'',
      PodRequestsAndLimits = containersRequestsAndLimits,
      ParseSelector = (\<lambda>selector.
         if selector = ''status.phase!=Succeeded,status.phase!=Failed''
           then Inr ''status.phase!=Failed,status.phase!=Succeeded''
         else Inr selector),
      GetNodeImages = (\<lambda>node. dedupImages (Node.Images node)),
      ComputePrices = (\<lambda>imgs. Map.empty),
      GetLabels = (\<lambda>nodes policies. Map.empty),
      GetOwnerReference = (\<lambda>adv. [OwnerReference (APIVersion adv) (Kind adv) (Name adv) (UID adv)])\<rparr>"

definition examplePod :: "string \<Rightarrow> (string \<rightharpoonup> string) option \<Rightarrow> Quantity \<Rightarrow> Quantity \<Rightarrow> Pod" where
  "examplePod node labels cpuRequest cpuLimit =
     \<lparr>Name = ''pod'', Namespace = ''default'', ResourceVersion = [], UID = [],
      ObjectMeta.Labels = labels, OwnerReferences = [], NodeName = node,
      Containers = [\<lparr>Requests = [''cpu'' \<mapsto> cpuRequest], Container.Limits = [''cpu'' \<mapsto> cpuLimit]\<rparr>]\<rparr>"

definition examplePods :: "Pod list" where
  "examplePods =
     [examplePod ''liqo-remote'' None 1 2,
      examplePod ''node1'' (Some [''virtualkubelet.liqo.io/outgoing'' \<mapsto> ''remote'']) 1 2,
      examplePod ''node1'' None 3 4,
      examplePod ''node2'' (Some [''app'' \<mapsto> ''web'']) 5 6]"


definition exampleNode :: "string \<Rightarrow> Quantity \<Rightarrow> Node" where
  "exampleNode name cpu =
     \<lparr>Name = name, Namespace = [], ResourceVersion = [], UID = [],
      ObjectMeta.Labels = None, OwnerReferences = [],
      Allocatable = [''cpu'' \<mapsto> cpu],
      Node.Images = [\<lparr>Names = [''nginx:1.19''], SizeBytes = 100\<rparr>]\<rparr>"

definition exampleAdvResources :: "Node list \<Rightarrow> AdvResources" where
  "exampleAdvResources vnodes =
     \<lparr>PhysicalNodes = [exampleNode ''node1'' 4], VirtualNodes = vnodes,
      Availability = [''cpu'' \<mapsto> 2], AdvResources.Limits = [''cpu'' \<mapsto> 1],
      AdvResources.Images = [], AdvResources.Labels = Map.empty\<rparr>"

text \<open>
  An environment whose local cluster lists the given physical nodes, virtual nodes and pods.
\<close>

definition listingEnv :: "Node list \<Rightarrow> Node list \<Rightarrow> Pod list \<Rightarrow> env" where
  "listingEnv physicalNodes virtualNodes pods =
     failingEnv
       \<lparr>nodesList := (\<lambda>t c selector.
            if selector = ''type != virtual-node'' then Inr physicalNodes
            else Inr virtualNodes),
        podsList := (\<lambda>t c ns selector. Inr pods)\<rparr>"

definition examplePhysicalNodes :: "Node list" where
  "examplePhysicalNodes = [exampleNode ''node1'' 4, exampleNode ''node2'' 2]"

text \<open>
  An advertisement of the home cluster with a given timestamp; an environment whose remote
  cluster holds no advertisement, creates what it is sent and refuses the update of the
  secret; a remote store that holds the advertisement of time 0.
\<close>

definition exampleAdvertisement :: "Time \<Rightarrow> Advertisement" where
  "exampleAdvertisement now =
     \<lparr>Name = ''adv-home'', Namespace = [], ResourceVersion = [], UID = [],
      ObjectMeta.Labels = None, OwnerReferences = [], Kind = [], APIVersion = [],
      Spec = \<lparr>ClusterId = ''home'', AdvertisementSpec.Images = [],
               LimitRange = \<lparr>LimitRangeSpec.Limits = []\<rparr>,
               ResourceQuota = \<lparr>Hard = [''cpu'' \<mapsto> 2], Scopes = [], ScopeSelector = None\<rparr>,
               AdvertisementSpec.Labels = Map.empty, Neighbors = Map.empty,
               Properties = Map.empty, Prices = Map.empty,
               KubeConfigRef = \<lparr>SecretReference.Namespace = ''liqo'',
                                 SecretReference.Name = ''vk-secret-home''\<rparr>,
               Timestamp = now, TimeToLive = now + 30 * Minute\<rparr>\<rparr>"

definition creatingEnv :: env where
  "creatingEnv =
     failingEnv
       \<lparr>resourceGet := (\<lambda>t c api name. Inl (StatusError StatusReasonNotFound)),
        resourceCreate := (\<lambda>t c api obj. Inr obj),
        secretsGet := (\<lambda>t c ns name. Inr exampleSecret),
        secretsUpdate := (\<lambda>t c ns secret. Inl (StatusError StatusReasonConflict))\<rparr>"


text \<open>
  An environment in which the steps of \<^verbatim>\<open>StartBroadcaster\<close> before the retries succeed and
  every creation of the client to the remote cluster fails, each time with another error.
\<close>

definition examplePeeringRequest :: PeeringRequest where
  "examplePeeringRequest =
     \<lparr>Name = ''foreign'', Namespace = ''liqo'', ResourceVersion = [], UID = [],
      ObjectMeta.Labels = None, OwnerReferences = [],
      SpecNamespace = ''liqo'',
      SpecKubeConfigRef = \<lparr>SecretReference.Namespace = ''liqo'',
                            SecretReference.Name = ''pr-foreign''\<rparr>\<rparr>"

definition startEnv :: env where
  "startEnv =
     failingEnv
       \<lparr>createAdvertisementClient := (\<lambda>t path secret.
            case secret of
              None \<Rightarrow> Inr (Client 0)
            | Some s \<Rightarrow>
                (if length (filter isRemoteClientCreation t) = 0
                   then Inl (StatusError StatusReasonUnknown)
                 else if length (filter isRemoteClientCreation t) = 1
                   then Inl (StatusError StatusReasonConflict)
                 else Inl (ErrorString ''third attempt failed''))),
        newKubeconfig := (\<lambda>t path. Inr (Config 0)),
        newFromConfig := (\<lambda>t config. Inr (Client 1)),
        resourceGet := (\<lambda>t c api name. Inr (PeeringRequestObj examplePeeringRequest)),
        secretsGet := (\<lambda>t c ns name. Inr exampleSecret)\<rparr>"

text \<open>
  An environment in which every step of an iteration succeeds: the remote store starts
  empty, the secret is found and updated, and the local cluster lists its nodes and pods.
\<close>

definition publishingEnv :: env where
  "publishingEnv =
     (storeEnv Map.empty)
       \<lparr>secretsGet := (\<lambda>t c ns name. Inr exampleSecret),
        secretsUpdate := (\<lambda>t c ns secret. Inr secret),
        nodesList := (\<lambda>t c selector.
            if selector = ''type != virtual-node'' then Inr examplePhysicalNodes else Inr []),
        podsList := (\<lambda>t c ns selector. Inr examplePods)\<rparr>"



section \<open>Sums of resource lists\<close>

text \<open>
  Adding a resource list into a total adds the quantities class by class, and a class is in
  the result when it is in either list. The loops over pods and nodes therefore compute,
  for each class, the sum over the list.
\<close>

lemma addQuantities_empty [simp]: "addQuantities m Map.empty = m"
  by (simp add: addQuantities_def)

lemma qty_addQuantities: "qty (addQuantities m p) R = qty m R + qty p R"
  by (simp add: qty_def addQuantities_def split: option.splits)


lemma qty_empty [simp]: "qty Map.empty R = 0"
  by (simp add: qty_def)

lemma qty_upd [simp]: "qty (m(k \<mapsto> v)) R = (if R = k then v else qty m R)"
  by (simp add: qty_def)








lemma nodesLoop_images:
  "snd (nodesLoop d ns (a, imgs)) = imgs @ concat (map (GetNodeImages d) ns)"
  by (induction ns arbitrary: a imgs) auto

lemma qty_addResourceLists: "qty (addResourceLists m p) R = qty m R + qty p R"
  by (simp add: qty_def addResourceLists_def split: option.splits)

lemma addResourceLists_eq_None: "addResourceLists m p R = None \<longleftrightarrow> m R = None \<and> p R = None"
  by (simp add: addResourceLists_def split: option.splits)

lemma nodesLoop_qty:
  "qty (fst (nodesLoop d ns (a, imgs))) R = qty a R + (\<Sum>n\<leftarrow>ns. qty (Allocatable n) R)"
  by (induction ns arbitrary: a imgs) (auto simp: qty_addResourceLists)

lemma exampleDeps_emptyPod:
  "PodRequestsAndLimits exampleDeps emptyPod = (Map.empty, Map.empty)"
  by (simp add: exampleDeps_def containersRequestsAndLimits_def emptyPod_def)

lemma excludedPod_examplePod:
  "excludedPod exampleDeps (examplePod node labels r l) \<longleftrightarrow>
     HasPrefix node ''liqo-'' \<or>
     (case labels of None \<Rightarrow> False | Some ls \<Rightarrow> ls ''virtualkubelet.liqo.io/outgoing'' \<noteq> None)"
  by (simp add: excludedPod_def examplePod_def exampleDeps_def split: option.splits)


lemma PodRequestsAndLimits_examplePod:
  "PodRequestsAndLimits exampleDeps (examplePod node labels r l) = ([''cpu'' \<mapsto> r], [''cpu'' \<mapsto> l])"
  by (auto simp: exampleDeps_def containersRequestsAndLimits_def examplePod_def addResourceLists_def
      split: option.splits)

section \<open>NotifyAdvertisementDeletion: the result of the remote delete\<close>

text \<open>
  Claim C1, as amended. \<^verbatim>\<open>NotifyAdvertisementDeletion\<close> makes one call, the delete of the
  advertisement named by the prefix and the home cluster's identifier, and returns what the
  call returns: success when the delete succeeds, the delete's error otherwise. When the
  remote store holds no advertisement of that name, the store answers not-found and the
  function returns that error.
\<close>

theorem NotifyAdvertisementDeletion_returns_delete_result:
  "NotifyAdvertisementDeletion e b t =
     (resourceDelete e t (RemoteClient b) ''advertisements'' (AdvertisementPrefix @ HomeClusterID b),
      t @ [ResourceDelete (RemoteClient b) ''advertisements'' (AdvertisementPrefix @ HomeClusterID b)])
   \<and> (storeAfter init t (AdvertisementPrefix @ HomeClusterID b) = None \<longrightarrow>
        fst (NotifyAdvertisementDeletion (storeEnv init) b t) = Some (StatusError StatusReasonNotFound))"
  by (auto simp: NotifyAdvertisementDeletion_def callResourceDelete_def storeEnv_def Let_def
      split: option.splits)

theorem NotifyAdvertisementDeletion_witness:
  "storeAfter Map.empty [] (AdvertisementPrefix @ HomeClusterID exampleBroadcaster) = None
   \<and> fst (NotifyAdvertisementDeletion (storeEnv Map.empty) exampleBroadcaster [])
       = Some (StatusError StatusReasonNotFound)"
  using NotifyAdvertisementDeletion_returns_delete_result
          [of "storeEnv Map.empty" exampleBroadcaster "[]" Map.empty]
  by (simp add: storeAfter_def storeEnv_def)

text \<open>
  Claim C1 as stated fails: on a remote store that holds no advertisement, the function
  returns an error.
\<close>

theorem NotifyAdvertisementDeletion_not_found_counterexample:
  "storeAfter Map.empty [] ''adv-home'' = None
   \<and> AdvertisementPrefix @ HomeClusterID exampleBroadcaster = ''adv-home''
   \<and> fst (NotifyAdvertisementDeletion (storeEnv Map.empty) exampleBroadcaster []) \<noteq> None"
  by (simp add: NotifyAdvertisementDeletion_def callResourceDelete_def storeEnv_def
      storeAfter_def AdvertisementPrefix_def exampleBroadcaster_def Let_def)

section \<open>GetAllPodsResources: which pods are counted\<close>




section \<open>GetResourcesForAdv: the announced availability\<close>

lemma qty_ComputeAnnouncedResources:
  "qty (fst (ComputeAnnouncedResources d nodes reqs pct)) R =
     max 0 (qty (fst (GetClusterResources d nodes)) R * of_int pct / 100 - qty reqs R)"
  by (auto simp: ComputeAnnouncedResources_def qty_def split: prod.splits option.splits)

lemma qty_GetClusterResources:
  "qty (fst (GetClusterResources d nodes)) R = (\<Sum>n\<leftarrow>nodes. qty (Allocatable n) R)"
  by (simp add: GetClusterResources_def nodesLoop_qty)

lemma GetResourcesForAdv_success:
  assumes "nodesList e t (LocalClient b) (TypeLabel d @ '' != '' @ TypeNode d) = Inr physicalNodes"
    and "t1 = t @ [NodesList (LocalClient b) (TypeLabel d @ '' != '' @ TypeNode d)]"
    and "nodesList e t1 (LocalClient b) (TypeLabel d @ '' = '' @ TypeNode d) = Inr virtualNodes"
    and "t2 = t1 @ [NodesList (LocalClient b) (TypeLabel d @ '' = '' @ TypeNode d)]"
    and "ParseSelector d (''status.phase!='' @ PodSucceeded @ '',status.phase!='' @ PodFailed)
           = Inr fieldSelector"
    and "podsList e t2 (LocalClient b) [] fieldSelector = Inr pods"
  shows "GetResourcesForAdv d e b t =
     (Inr \<lparr>PhysicalNodes = physicalNodes, VirtualNodes = virtualNodes,
            Availability = fst (ComputeAnnouncedResources d physicalNodes
              (fst (GetAllPodsResources d pods)) (ResourceSharingPercentage (ClusterConfig b))),
            AdvResources.Limits = snd (GetAllPodsResources d pods),
            AdvResources.Images = snd (ComputeAnnouncedResources d physicalNodes
              (fst (GetAllPodsResources d pods)) (ResourceSharingPercentage (ClusterConfig b))),
            AdvResources.Labels = GetLabels d physicalNodes (LabelPolicies (ClusterConfig b))\<rparr>,
      t2 @ [PodsList (LocalClient b) [] fieldSelector])"
proof -
  have n1: "callNodesList e (LocalClient b) (TypeLabel d @ '' != '' @ TypeNode d) t
      = (Inr physicalNodes, t1)"
    using assms(1,2) by (simp add: callNodesList_def)
  have n2: "callNodesList e (LocalClient b) (TypeLabel d @ '' = '' @ TypeNode d) t1
      = (Inr virtualNodes, t2)"
    using assms(3,4) by (simp add: callNodesList_def)
  have p: "callPodsList e (LocalClient b) [] fieldSelector t2
      = (Inr pods, t2 @ [PodsList (LocalClient b) [] fieldSelector])"
    using assms(6) by (simp add: callPodsList_def)
  show ?thesis
    using n1 n2 p assms(5) by (simp add: GetResourcesForAdv_def Let_def split_beta)
qed

text \<open>
  Claim C3. When the three listings succeed, \<^verbatim>\<open>GetResourcesForAdv\<close> returns resources
  whose availability is, for every resource class, the allocatable capacity summed over the
  physical nodes, times the sharing percentage over 100, minus the requests that
  \<^verbatim>\<open>GetAllPodsResources\<close> totals, and zero where that is negative. The statement holds for
  every percentage, so for those from 0 to 100. The availability is computed by
  \<^verbatim>\<open>ComputeAnnouncedResources\<close>, which is modelled from the spec.
\<close>

theorem GetResourcesForAdv_availability:
  assumes "nodesList e t (LocalClient b) (TypeLabel d @ '' != '' @ TypeNode d) = Inr physicalNodes"
    and "t1 = t @ [NodesList (LocalClient b) (TypeLabel d @ '' != '' @ TypeNode d)]"
    and "nodesList e t1 (LocalClient b) (TypeLabel d @ '' = '' @ TypeNode d) = Inr virtualNodes"
    and "t2 = t1 @ [NodesList (LocalClient b) (TypeLabel d @ '' = '' @ TypeNode d)]"
    and "ParseSelector d (''status.phase!='' @ PodSucceeded @ '',status.phase!='' @ PodFailed)
           = Inr fieldSelector"
    and "podsList e t2 (LocalClient b) [] fieldSelector = Inr pods"
    and "pct = ResourceSharingPercentage (ClusterConfig b)"
  shows "\<exists>advRes. fst (GetResourcesForAdv d e b t) = Inr advRes
       \<and> PhysicalNodes advRes = physicalNodes
       \<and> qty (Availability advRes) R =
           max 0 ((\<Sum>n\<leftarrow>physicalNodes. qty (Allocatable n) R) * of_int pct / 100
                  - qty (fst (GetAllPodsResources d pods)) R)
       \<and> 0 \<le> qty (Availability advRes) R"
  unfolding GetResourcesForAdv_success [OF assms(1-6)]
  by (simp add: qty_ComputeAnnouncedResources qty_GetClusterResources assms(7))

theorem GetResourcesForAdv_availability_witness:
  "nodesList (listingEnv examplePhysicalNodes [exampleNode ''liqo-a'' 2] examplePods) []
      (LocalClient exampleBroadcaster) (TypeLabel exampleDeps @ '' != '' @ TypeNode exampleDeps)
      = Inr examplePhysicalNodes
   \<and> ParseSelector exampleDeps (''status.phase!='' @ PodSucceeded @ '',status.phase!='' @ PodFailed)
      = Inr ''status.phase!=Failed,status.phase!=Succeeded''
   \<and> ResourceSharingPercentage (ClusterConfig exampleBroadcaster) = 50
   \<and> (\<exists>advRes.
        fst (GetResourcesForAdv exampleDeps
              (listingEnv examplePhysicalNodes [exampleNode ''liqo-a'' 2] examplePods)
              exampleBroadcaster []) = Inr advRes
        \<and> qty (Availability advRes) ''cpu'' = max 0 ((4 + 2) * 50 / 100 - 8)
        \<and> qty (Availability advRes) ''cpu'' = 0)"
proof -
  let ?e = "listingEnv examplePhysicalNodes [exampleNode ''liqo-a'' 2] examplePods"
  let ?t1 = "[] @ [NodesList (LocalClient exampleBroadcaster)
                     (TypeLabel exampleDeps @ '' != '' @ TypeNode exampleDeps)]"
  let ?t2 = "?t1 @ [NodesList (LocalClient exampleBroadcaster)
                     (TypeLabel exampleDeps @ '' = '' @ TypeNode exampleDeps)]"
  have h1: "nodesList ?e [] (LocalClient exampleBroadcaster)
      (TypeLabel exampleDeps @ '' != '' @ TypeNode exampleDeps) = Inr examplePhysicalNodes"
    by (simp add: listingEnv_def exampleDeps_def)
  have h3: "nodesList ?e ?t1 (LocalClient exampleBroadcaster)
      (TypeLabel exampleDeps @ '' = '' @ TypeNode exampleDeps) = Inr [exampleNode ''liqo-a'' 2]"
    by (simp add: listingEnv_def exampleDeps_def)
  have h5: "ParseSelector exampleDeps
      (''status.phase!='' @ PodSucceeded @ '',status.phase!='' @ PodFailed)
      = Inr ''status.phase!=Failed,status.phase!=Succeeded''"
    by (simp add: exampleDeps_def PodSucceeded_def PodFailed_def)
  have h6: "podsList ?e ?t2 (LocalClient exampleBroadcaster) []
      ''status.phase!=Failed,status.phase!=Succeeded'' = Inr examplePods"
    by (simp add: listingEnv_def)
  have h7: "50 = ResourceSharingPercentage (ClusterConfig exampleBroadcaster)"
    by (simp add: exampleBroadcaster_def)
  have consumed: "qty (fst (GetAllPodsResources exampleDeps examplePods)) ''cpu'' = 8"
    by (simp add: GetAllPodsResources_def getPodsTotalRequestsAndLimits_def overwriteItems_def
        examplePods_def excludedPod_examplePod HasPrefix_def qty_addQuantities
        PodRequestsAndLimits_examplePod exampleDeps_emptyPod)
  have alloc: "(\<Sum>n\<leftarrow>examplePhysicalNodes. qty (Allocatable n) ''cpu'') = 4 + 2"
    by (simp add: examplePhysicalNodes_def exampleNode_def)
  from GetResourcesForAdv_availability [OF h1 refl h3 refl h5 h6 h7, of "''cpu''"]
  obtain advRes where
    r: "fst (GetResourcesForAdv exampleDeps ?e exampleBroadcaster []) = Inr advRes"
    and a: "qty (Availability advRes) ''cpu'' =
           max 0 ((\<Sum>n\<leftarrow>examplePhysicalNodes. qty (Allocatable n) ''cpu'') * of_int 50 / 100
                  - qty (fst (GetAllPodsResources exampleDeps examplePods)) ''cpu'')"
    by blast
  from a have a': "qty (Availability advRes) ''cpu'' = max 0 ((4 + 2) * 50 / 100 - 8)"
    unfolding consumed alloc by simp
  then have "qty (Availability advRes) ''cpu'' = 0" by simp
  with r a' h1 h5 h7 show ?thesis by auto
qed

section \<open>SendAdvertisementToForeignCluster: the secret's owner reference\<close>

text \<open>
  Claim C4. When the advertisement is not found on the remote cluster, the secret is
  fetched, the advertisement is created, and the update that writes the owner reference
  into the secret fails, \<^verbatim>\<open>SendAdvertisementToForeignCluster\<close> returns the created
  advertisement (with its kind and API version set) and no error; the failed update is its
  last call.
\<close>

theorem SendAdvertisement_secret_update_failure:
  assumes "rc = RemoteClient b" and "ksec = KubeconfigSecretForForeign b"
    and "resourceGet e t rc ''advertisements'' (Name advToCreate) = Inl gerr"
    and "IsNotFound gerr"
    and "t1 = t @ [ResourceGet rc ''advertisements'' (Name advToCreate)]"
    and "secretsGet e t1 rc (Namespace ksec) (Name ksec) = Inr secretForeign"
    and "t2 = t1 @ [SecretsGet rc (Namespace ksec) (Name ksec)]"
    and "resourceCreate e t2 rc ''advertisements'' (AdvertisementObj advToCreate)
           = Inr (AdvertisementObj created)"
    and "t3 = t2 @ [ResourceCreate rc ''advertisements'' (AdvertisementObj advToCreate)]"
    and "adv = created\<lparr>Kind := ''Advertisement'', APIVersion := GroupVersion d\<rparr>"
    and "owned = secretForeign\<lparr>OwnerReferences := GetOwnerReference d adv\<rparr>"
    and "secretsUpdate e t3 rc (Namespace secretForeign) owned = Inl uerr"
  shows "SendAdvertisementToForeignCluster d e b advToCreate t =
           (Ok adv, t3 @ [SecretsUpdate rc (Namespace secretForeign) owned])"
  using assms
  by (simp add: SendAdvertisementToForeignCluster_def callResourceGet_def callSecretsGet_def
      callResourceCreate_def callSecretsUpdate_def Let_def)

theorem SendAdvertisement_secret_update_failure_witness:
  "resourceGet creatingEnv [] (RemoteClient exampleBroadcaster) ''advertisements''
       (Name (exampleAdvertisement 0)) = Inl (StatusError StatusReasonNotFound)
   \<and> IsNotFound (StatusError StatusReasonNotFound)
   \<and> secretsUpdate creatingEnv
        [ResourceGet (Client 2) ''advertisements'' ''adv-home'',
         SecretsGet (Client 2) ''liqo'' ''vk-secret-home'',
         ResourceCreate (Client 2) ''advertisements'' (AdvertisementObj (exampleAdvertisement 0))]
        (Client 2) ''liqo''
        (exampleSecret\<lparr>OwnerReferences := GetOwnerReference exampleDeps
           ((exampleAdvertisement 0)\<lparr>Kind := ''Advertisement'',
              APIVersion := GroupVersion exampleDeps\<rparr>)\<rparr>)
       = Inl (StatusError StatusReasonConflict)
   \<and> fst (SendAdvertisementToForeignCluster exampleDeps creatingEnv exampleBroadcaster
          (exampleAdvertisement 0) [])
       = Ok ((exampleAdvertisement 0)\<lparr>Kind := ''Advertisement'',
               APIVersion := ''sharing.liqo.io/v1alpha1''\<rparr>)"
proof -
  let ?rc = "RemoteClient exampleBroadcaster"
  let ?ksec = "KubeconfigSecretForForeign exampleBroadcaster"
  let ?a = "exampleAdvertisement 0"
  let ?t1 = "[] @ [ResourceGet ?rc ''advertisements'' (Name ?a)]"
  let ?t2 = "?t1 @ [SecretsGet ?rc (Namespace ?ksec) (Name ?ksec)]"
  let ?t3 = "?t2 @ [ResourceCreate ?rc ''advertisements'' (AdvertisementObj ?a)]"
  let ?adv = "?a\<lparr>Kind := ''Advertisement'', APIVersion := GroupVersion exampleDeps\<rparr>"
  let ?owned = "exampleSecret\<lparr>OwnerReferences := GetOwnerReference exampleDeps ?adv\<rparr>"
  have g: "resourceGet creatingEnv [] ?rc ''advertisements'' (Name ?a)
      = Inl (StatusError StatusReasonNotFound)"
    by (simp add: creatingEnv_def)
  have nf: "IsNotFound (StatusError StatusReasonNotFound)" by simp
  have sg: "secretsGet creatingEnv ?t1 ?rc (Namespace ?ksec) (Name ?ksec) = Inr exampleSecret"
    by (simp add: creatingEnv_def)
  have c: "resourceCreate creatingEnv ?t2 ?rc ''advertisements'' (AdvertisementObj ?a)
      = Inr (AdvertisementObj ?a)"
    by (simp add: creatingEnv_def)
  have u: "secretsUpdate creatingEnv ?t3 ?rc (Namespace exampleSecret) ?owned
      = Inl (StatusError StatusReasonConflict)"
    by (simp add: creatingEnv_def)
  have r: "SendAdvertisementToForeignCluster exampleDeps creatingEnv exampleBroadcaster ?a [] =
      (Ok ?adv, ?t3 @ [SecretsUpdate ?rc (Namespace exampleSecret) ?owned])"
    by (rule SendAdvertisement_secret_update_failure [OF refl refl g nf refl sg refl c refl refl refl u])
  have names: "?rc = Client 2" "Name ?a = ''adv-home''" "Namespace ?ksec = ''liqo''"
    "Name ?ksec = ''vk-secret-home''" "Namespace exampleSecret = ''liqo''"
    "GroupVersion exampleDeps = ''sharing.liqo.io/v1alpha1''"
    by (simp_all add: exampleBroadcaster_def exampleAdvertisement_def exampleSecret_def
        exampleDeps_def)
  from g nf u r show ?thesis
    by (simp add: names)
qed

section \<open>GetAllPodsResources: overwriting is filtering\<close>




section \<open>GetClusterResources: the image inventory\<close>

text \<open>
  Claim C6, as amended. The image inventory that \<^verbatim>\<open>GetClusterResources\<close> returns is the
  concatenation, in the order of the nodes, of the lists that \<^verbatim>\<open>GetNodeImages\<close> returns
  for the nodes: a reference occurs in it as often as it occurs in those lists together.
  Nothing is removed across nodes.
\<close>

theorem GetClusterResources_images_concat:
  "snd (GetClusterResources d nodes) = concat (map (GetNodeImages d) nodes)
   \<and> count_list (map Names (snd (GetClusterResources d nodes))) r =
       (\<Sum>n\<leftarrow>nodes. count_list (map Names (GetNodeImages d n)) r)"
proof -
  have c: "count_list (concat xss) x = (\<Sum>xs\<leftarrow>xss. count_list xs x)"
    for xss :: "string list list list" and x
    by (induction xss) auto
  show ?thesis
    by (simp add: GetClusterResources_def nodesLoop_images map_concat c comp_def)
qed

text \<open>
  Claim C6 as stated fails: two nodes that hold the same image give an inventory with two
  entries of that reference.
\<close>

theorem GetClusterResources_images_counterexample:
  "\<not> distinct (map Names (snd (GetClusterResources exampleDeps
        [exampleNode ''node1'' 4, exampleNode ''node2'' 4])))"
  by (simp add: GetClusterResources_def exampleDeps_def exampleNode_def)

section \<open>CreateAdvertisement: the fields of the advertisement\<close>

text \<open>
  The neighbours after the loop: a name maps to the allocatable resources of the last
  virtual node of that name in the list.
\<close>

lemma find_app:
  "find Q (xs @ ys) = (case find Q xs of None \<Rightarrow> find Q ys | Some x \<Rightarrow> Some x)"
  by (induction xs) auto

lemma neighborsLoop_find:
  "neighborsLoop vnodes m n =
     (case find (\<lambda>v. Name v = n) (rev vnodes) of
        None \<Rightarrow> m n
      | Some v \<Rightarrow> Some (Allocatable v))"
proof (induction vnodes arbitrary: m)
  case Nil
  then show ?case by simp
next
  case (Cons v vs)
  then show ?case
    by (auto simp: find_app split: option.splits)
qed

lemma find_rev_distinct:
  assumes "distinct (map Name vs)" and "v \<in> set vs"
  shows "find (\<lambda>u. Name u = Name v) (rev vs) = Some v"
  using assms
proof (induction vs)
  case Nil
  then show ?case by simp
next
  case (Cons u us)
  show ?case
  proof (cases "v \<in> set us")
    case True
    with Cons show ?thesis by (simp add: find_app)
  next
    case False
    with Cons.prems have vu: "v = u" by simp
    have "find (\<lambda>w. Name w = Name u) (rev us) = None"
      using Cons.prems(1) by (force simp: find_None_iff image_iff)
    with vu show ?thesis by (simp add: find_app)
  qed
qed

text \<open>
  Claim C7, as amended. The advertisement that \<^verbatim>\<open>CreateAdvertisement\<close> returns has the
  name made of the advertisement prefix and the home cluster's identifier; the hard field of
  its resource quota is the availability; its limit range has one entry, whose maximum is
  the limits; its neighbour map sends a name to the allocatable resources of the last
  virtual node listed under that name, which is each node's own when the names of the
  virtual nodes are distinct; its timestamp is the first reading of the clock, and its time
  to live is the second reading of the clock plus 30 minutes.
\<close>

theorem CreateAdvertisement_fields:
  assumes "CreateAdvertisement d e b advRes t = (adv, t')"
  shows "Name adv = AdvertisementPrefix @ HomeClusterID b
       \<and> Hard (ResourceQuota (Spec adv)) = Availability advRes
       \<and> map LimitRangeItem.Max (LimitRangeSpec.Limits (LimitRange (Spec adv))) =
           [AdvResources.Limits advRes]
       \<and> Neighbors (Spec adv) n =
           map_option Allocatable (find (\<lambda>v. Name v = n) (rev (VirtualNodes advRes)))
       \<and> (distinct (map Name (VirtualNodes advRes)) \<longrightarrow>
            (\<forall>v \<in> set (VirtualNodes advRes). Neighbors (Spec adv) (Name v) = Some (Allocatable v)))
       \<and> Timestamp (Spec adv) = timeNow e t
       \<and> TimeToLive (Spec adv) = timeNow e (t @ [TimeNow]) + 30 * Minute
       \<and> t' = t @ [TimeNow, TimeNow]"
proof -
  have nb: "Neighbors (Spec adv) = neighborsLoop (VirtualNodes advRes) Map.empty"
    using assms by (auto simp: CreateAdvertisement_def callTimeNow_def Let_def)
  have "Neighbors (Spec adv) n =
      map_option Allocatable (find (\<lambda>v. Name v = n) (rev (VirtualNodes advRes)))" for n
    by (simp add: nb neighborsLoop_find split: option.splits)
  moreover have "Neighbors (Spec adv) (Name v) = Some (Allocatable v)"
    if "distinct (map Name (VirtualNodes advRes))" "v \<in> set (VirtualNodes advRes)" for v
    using that by (simp add: nb neighborsLoop_find find_rev_distinct)
  moreover have "Name adv = AdvertisementPrefix @ HomeClusterID b"
    "Hard (ResourceQuota (Spec adv)) = Availability advRes"
    "map LimitRangeItem.Max (LimitRangeSpec.Limits (LimitRange (Spec adv))) =
           [AdvResources.Limits advRes]"
    "Timestamp (Spec adv) = timeNow e t"
    "TimeToLive (Spec adv) = timeNow e (t @ [TimeNow]) + 30 * Minute"
    "t' = t @ [TimeNow, TimeNow]"
    using assms by (auto simp: CreateAdvertisement_def callTimeNow_def Let_def)
  ultimately show ?thesis by blast
qed

theorem CreateAdvertisement_fields_witness:
  "distinct (map Name [exampleNode ''liqo-a'' 2, exampleNode ''liqo-b'' 3])
   \<and> Name (fst (CreateAdvertisement exampleDeps failingEnv exampleBroadcaster
        (exampleAdvResources [exampleNode ''liqo-a'' 2, exampleNode ''liqo-b'' 3]) [])) = ''adv-home''
   \<and> Neighbors (Spec (fst (CreateAdvertisement exampleDeps failingEnv exampleBroadcaster
        (exampleAdvResources [exampleNode ''liqo-a'' 2, exampleNode ''liqo-b'' 3]) []))) ''liqo-a''
       = Some (Allocatable (exampleNode ''liqo-a'' 2))
   \<and> Timestamp (Spec (fst (CreateAdvertisement exampleDeps failingEnv exampleBroadcaster
        (exampleAdvResources [exampleNode ''liqo-a'' 2, exampleNode ''liqo-b'' 3]) []))) = 0
   \<and> TimeToLive (Spec (fst (CreateAdvertisement exampleDeps failingEnv exampleBroadcaster
        (exampleAdvResources [exampleNode ''liqo-a'' 2, exampleNode ''liqo-b'' 3]) []))) = 1 + 30 * Minute"
proof -
  let ?vs = "[exampleNode ''liqo-a'' 2, exampleNode ''liqo-b'' 3]"
  let ?r = "CreateAdvertisement exampleDeps failingEnv exampleBroadcaster (exampleAdvResources ?vs) []"
  have run: "?r = (fst ?r, snd ?r)" by simp
  have d: "distinct (map Name ?vs)" by (simp add: exampleNode_def)
  have vn: "VirtualNodes (exampleAdvResources ?vs) = ?vs" by (simp add: exampleAdvResources_def)
  note f = CreateAdvertisement_fields [OF run, of "''liqo-a''"]
  from f have "Name (fst ?r) = AdvertisementPrefix @ HomeClusterID exampleBroadcaster" by blast
  then have n: "Name (fst ?r) = ''adv-home''"
    by (simp add: AdvertisementPrefix_def exampleBroadcaster_def)
  from f d have "\<forall>v \<in> set ?vs. Neighbors (Spec (fst ?r)) (Name v) = Some (Allocatable v)"
    unfolding vn by blast
  then have nb: "Neighbors (Spec (fst ?r)) ''liqo-a'' = Some (Allocatable (exampleNode ''liqo-a'' 2))"
    by (simp add: exampleNode_def)
  from f have "Timestamp (Spec (fst ?r)) = timeNow failingEnv []" by blast
  then have ts: "Timestamp (Spec (fst ?r)) = 0" by (simp add: failingEnv_def)
  from f have "TimeToLive (Spec (fst ?r)) = timeNow failingEnv ([] @ [TimeNow]) + 30 * Minute" by blast
  then have ttl: "TimeToLive (Spec (fst ?r)) = 1 + 30 * Minute" by (simp add: failingEnv_def)
  from d n nb ts ttl show ?thesis by blast
qed

text \<open>
  Claim C7 as stated fails: with a clock that advances between the two readings the time to
  live is not the timestamp plus 30 minutes, and of two virtual nodes of one name the first
  does not get its own allocatable resources.
\<close>

theorem CreateAdvertisement_counterexample:
  "TimeToLive (Spec (fst (CreateAdvertisement exampleDeps failingEnv exampleBroadcaster
        (exampleAdvResources [exampleNode ''liqo-a'' 2, exampleNode ''liqo-a'' 3]) [])))
     \<noteq> Timestamp (Spec (fst (CreateAdvertisement exampleDeps failingEnv exampleBroadcaster
        (exampleAdvResources [exampleNode ''liqo-a'' 2, exampleNode ''liqo-a'' 3]) []))) + 30 * Minute
   \<and> Neighbors (Spec (fst (CreateAdvertisement exampleDeps failingEnv exampleBroadcaster
        (exampleAdvResources [exampleNode ''liqo-a'' 2, exampleNode ''liqo-a'' 3]) [])))
          (Name (exampleNode ''liqo-a'' 2))
     \<noteq> Some (Allocatable (exampleNode ''liqo-a'' 2))"
proof -
  let ?vs = "[exampleNode ''liqo-a'' 2, exampleNode ''liqo-a'' 3]"
  let ?r = "CreateAdvertisement exampleDeps failingEnv exampleBroadcaster (exampleAdvResources ?vs) []"
  have ts: "Timestamp (Spec (fst ?r)) = 0" and ttl: "TimeToLive (Spec (fst ?r)) = 1 + 30 * Minute"
    by (simp_all add: CreateAdvertisement_def callTimeNow_def Let_def failingEnv_def)
  have "Neighbors (Spec (fst ?r)) ''liqo-a'' = Some [''cpu'' \<mapsto> 3]"
    by (simp add: CreateAdvertisement_def callTimeNow_def Let_def exampleAdvResources_def
        exampleNode_def)
  moreover have "[''cpu'' \<mapsto> 3::rat] \<noteq> [''cpu'' \<mapsto> 2]"
    by (auto dest: map_upd_eqD1)
  ultimately have "Neighbors (Spec (fst ?r)) (Name (exampleNode ''liqo-a'' 2))
      \<noteq> Some (Allocatable (exampleNode ''liqo-a'' 2))"
    by (simp add: exampleNode_def)
  with ts ttl show ?thesis by simp
qed

section \<open>StartBroadcaster: the retries of the remote client\<close>

text \<open>
  The loop from its start, unrolled: an attempt that fails is followed by a pause of one
  minute and, up to the third, by another attempt.
\<close>

lemma retryLoop_from_0:
  assumes "attempt = CreateAdvertisementClient [] (Some secret)" and "pause = Sleep (1 * Minute)"
  shows "retryLoop e secret 0 None None t =
     (case createAdvertisementClient e t [] (Some secret) of
        Inr c \<Rightarrow> (0, Some c, None, t @ [attempt])
      | Inl err0 \<Rightarrow>
     (case createAdvertisementClient e (t @ [attempt, pause]) [] (Some secret) of
        Inr c \<Rightarrow> (1, Some c, None, t @ [attempt, pause, attempt])
      | Inl err1 \<Rightarrow>
     (case createAdvertisementClient e (t @ [attempt, pause, attempt, pause]) [] (Some secret) of
        Inr c \<Rightarrow> (2, Some c, None, t @ [attempt, pause, attempt, pause, attempt])
      | Inl err2 \<Rightarrow>
          (3, None, Some err2, t @ [attempt, pause, attempt, pause, attempt, pause]))))"
proof -
  have three: "retryLoop e secret (Suc (Suc (Suc 0))) rc err t' = (3, rc, err, t')" for rc err t'
    by (subst retryLoop.simps) (simp add: numeral_3_eq_3)
  have two: "retryLoop e secret (Suc (Suc 0)) rc err t' =
      (case createAdvertisementClient e t' [] (Some secret) of
         Inr c \<Rightarrow> (2, Some c, None, t' @ [attempt])
       | Inl err2 \<Rightarrow> (3, None, Some err2, t' @ [attempt, pause]))" for rc err t'
    by (subst retryLoop.simps)
       (simp add: callCreateAdvertisementClient_def callSleep_def assms three numeral_2_eq_2
          split: sum.splits)
  have one: "retryLoop e secret (Suc 0) rc err t' =
      (case createAdvertisementClient e t' [] (Some secret) of
         Inr c \<Rightarrow> (1, Some c, None, t' @ [attempt])
       | Inl err1 \<Rightarrow>
           retryLoop e secret (Suc (Suc 0)) None (Some err1) (t' @ [attempt, pause]))"
    for rc err t'
    by (subst retryLoop.simps)
       (simp add: callCreateAdvertisementClient_def callSleep_def assms split: sum.splits)
  have zero: "retryLoop e secret 0 None None t =
      (case createAdvertisementClient e t [] (Some secret) of
         Inr c \<Rightarrow> (0, Some c, None, t @ [attempt])
       | Inl err0 \<Rightarrow> retryLoop e secret (Suc 0) None (Some err0) (t @ [attempt, pause]))"
    by (subst retryLoop.simps)
       (simp add: callCreateAdvertisementClient_def callSleep_def assms split: sum.splits)
  show ?thesis
    unfolding zero one two by (simp split: sum.splits)
qed

lemma retryLoop_creations:
  "length (filter isRemoteClientCreation (snd (snd (snd (retryLoop e secret 0 None None t)))))
     \<le> length (filter isRemoteClientCreation t) + 3"
  by (simp add: retryLoop_from_0 [OF refl refl] split: sum.splits)

lemma SendSecret_creations:
  "filter isRemoteClientCreation (snd (SendSecretToForeignCluster e b secret t))
     = filter isRemoteClientCreation t"
  by (simp add: SendSecretToForeignCluster_def callSecretsGet_def callSecretsUpdate_def
      callSecretsCreate_def Let_def split: sum.splits)

lemma StartBroadcaster_creations:
  "length (filter isRemoteClientCreation (snd (StartBroadcaster e home path prName saName t0)))
     \<le> length (filter isRemoteClientCreation t0) + 3"
proof -
  have loop: "length (filter isRemoteClientCreation t6) \<le> length (filter isRemoteClientCreation t5) + 3"
    if "retryLoop e secret 0 None None t5 = (retry, rc, err, t6)" for secret t5 retry rc err t6
    using retryLoop_creations [of e secret t5] that by simp
  have send: "filter isRemoteClientCreation t8 = filter isRemoteClientCreation t7"
    if "SendSecretToForeignCluster e b secret t7 = (r, t8)" for b secret t7 r t8
    using SendSecret_creations [of e b secret t7] that by simp
  show ?thesis
    unfolding StartBroadcaster_def
    by (auto simp: callCreateAdvertisementClient_def callNewKubeconfig_def callNewFromConfig_def
        callResourceGet_def callSecretsGet_def callCreateKubeConfig_def Let_def
        split: sum.splits prod.splits Object.splits option.splits
        dest!: loop send)
qed

text \<open>
  Claim C8. In \<^verbatim>\<open>StartBroadcaster\<close> the client to the remote cluster is created in a loop
  that makes at most three attempts and pauses one minute after each attempt that fails;
  whatever the environment answers, a run of \<^verbatim>\<open>StartBroadcaster\<close> makes at most three such
  attempts; and when the steps before the loop succeed and the three attempts fail,
  \<^verbatim>\<open>StartBroadcaster\<close> returns the error of the third attempt, its last call being the third
  pause.
\<close>

theorem StartBroadcaster_remote_client_retries:
  assumes "attempt = CreateAdvertisementClient [] (Some secret)"
    and "pause = Sleep (1 * Minute)"
    and "t1 = t0 @ [CreateAdvertisementClient path None]"
    and "t2 = t1 @ [NewKubeconfig path]"
    and "t3 = t2 @ [NewFromConfig config]"
    and "t4 = t3 @ [ResourceGet discoveryClient ''peeringrequests'' prName]"
    and "t5 = t4 @ [SecretsGet localClient (SecretReference.Namespace (SpecKubeConfigRef pr))
                      (SecretReference.Name (SpecKubeConfigRef pr))]"
  shows "retryLoop e secret 0 None None t =
          (case createAdvertisementClient e t [] (Some secret) of
             Inr c \<Rightarrow> (0, Some c, None, t @ [attempt])
           | Inl err0 \<Rightarrow>
          (case createAdvertisementClient e (t @ [attempt, pause]) [] (Some secret) of
             Inr c \<Rightarrow> (1, Some c, None, t @ [attempt, pause, attempt])
           | Inl err1 \<Rightarrow>
          (case createAdvertisementClient e (t @ [attempt, pause, attempt, pause]) [] (Some secret) of
             Inr c \<Rightarrow> (2, Some c, None, t @ [attempt, pause, attempt, pause, attempt])
           | Inl err2 \<Rightarrow>
               (3, None, Some err2, t @ [attempt, pause, attempt, pause, attempt, pause]))))
       \<and> length (filter isRemoteClientCreation (snd (StartBroadcaster e home path prName saName t0)))
           \<le> length (filter isRemoteClientCreation t0) + 3
       \<and> (createAdvertisementClient e t0 path None = Inr localClient
            \<and> newKubeconfig e t1 path = Inr config
            \<and> newFromConfig e t2 config = Inr discoveryClient
            \<and> resourceGet e t3 discoveryClient ''peeringrequests'' prName
                  = Inr (PeeringRequestObj pr)
            \<and> secretsGet e t4 localClient
                  (SecretReference.Namespace (SpecKubeConfigRef pr))
                  (SecretReference.Name (SpecKubeConfigRef pr)) = Inr secret
            \<and> createAdvertisementClient e t5 [] (Some secret) = Inl err0
            \<and> createAdvertisementClient e (t5 @ [attempt, pause]) [] (Some secret) = Inl err1
            \<and> createAdvertisementClient e (t5 @ [attempt, pause, attempt, pause]) [] (Some secret)
                  = Inl err2
            \<longrightarrow> StartBroadcaster e home path prName saName t0 =
                  (Returned (Some err2), t5 @ [attempt, pause, attempt, pause, attempt, pause]))"
proof -
  note loop = retryLoop_from_0 [OF assms(1,2)]
  have fatal: "StartBroadcaster e home path prName saName t0 =
      (Returned (Some err2), t5 @ [attempt, pause, attempt, pause, attempt, pause])"
    if "createAdvertisementClient e t0 path None = Inr localClient"
      and "newKubeconfig e t1 path = Inr config"
      and "newFromConfig e t2 config = Inr discoveryClient"
      and "resourceGet e t3 discoveryClient ''peeringrequests'' prName
             = Inr (PeeringRequestObj pr)"
      and "secretsGet e t4 localClient
             (SecretReference.Namespace (SpecKubeConfigRef pr))
             (SecretReference.Name (SpecKubeConfigRef pr)) = Inr secret"
      and "createAdvertisementClient e t5 [] (Some secret) = Inl err0"
      and "createAdvertisementClient e (t5 @ [attempt, pause]) [] (Some secret) = Inl err1"
      and "createAdvertisementClient e (t5 @ [attempt, pause, attempt, pause]) [] (Some secret)
             = Inl err2"
  proof -
    have l: "retryLoop e secret 0 None None t5 =
        (3, None, Some err2, t5 @ [attempt, pause, attempt, pause, attempt, pause])"
      using that(6,7,8) by (simp add: retryLoop_from_0 [OF assms(1,2)])
    show ?thesis
      using that(1-5) l unfolding assms(3-7)
      by (simp add: StartBroadcaster_def callCreateAdvertisementClient_def callNewKubeconfig_def
          callNewFromConfig_def callResourceGet_def callSecretsGet_def)
  qed
  from loop StartBroadcaster_creations fatal show ?thesis by blast
qed

theorem StartBroadcaster_remote_client_retries_witness:
  "createAdvertisementClient startEnv [] ''/kubeconfig'' None = Inr (Client 0)
   \<and> createAdvertisementClient startEnv
        [CreateAdvertisementClient ''/kubeconfig'' None, NewKubeconfig ''/kubeconfig'',
         NewFromConfig (Config 0), ResourceGet (Client 1) ''peeringrequests'' ''foreign'',
         SecretsGet (Client 0) ''liqo'' ''pr-foreign'',
         CreateAdvertisementClient [] (Some exampleSecret), Sleep (1 * Minute),
         CreateAdvertisementClient [] (Some exampleSecret), Sleep (1 * Minute)]
        [] (Some exampleSecret) = Inl (ErrorString ''third attempt failed'')
   \<and> StartBroadcaster startEnv ''home'' ''/kubeconfig'' ''foreign'' ''serviceaccount'' [] =
       (Returned (Some (ErrorString ''third attempt failed'')),
        [CreateAdvertisementClient ''/kubeconfig'' None, NewKubeconfig ''/kubeconfig'',
         NewFromConfig (Config 0), ResourceGet (Client 1) ''peeringrequests'' ''foreign'',
         SecretsGet (Client 0) ''liqo'' ''pr-foreign'',
         CreateAdvertisementClient [] (Some exampleSecret), Sleep (1 * Minute),
         CreateAdvertisementClient [] (Some exampleSecret), Sleep (1 * Minute),
         CreateAdvertisementClient [] (Some exampleSecret), Sleep (1 * Minute)])"
proof -
  let ?a = "CreateAdvertisementClient [] (Some exampleSecret)"
  let ?p = "Sleep (1 * Minute)"
  let ?t1 = "[] @ [CreateAdvertisementClient ''/kubeconfig'' None]"
  let ?t2 = "?t1 @ [NewKubeconfig ''/kubeconfig'']"
  let ?t3 = "?t2 @ [NewFromConfig (Config 0)]"
  let ?t4 = "?t3 @ [ResourceGet (Client 1) ''peeringrequests'' ''foreign'']"
  let ?t5 = "?t4 @ [SecretsGet (Client 0)
                      (SecretReference.Namespace (SpecKubeConfigRef examplePeeringRequest))
                      (SecretReference.Name (SpecKubeConfigRef examplePeeringRequest))]"
  have h1: "createAdvertisementClient startEnv [] ''/kubeconfig'' None = Inr (Client 0)"
    and h2: "newKubeconfig startEnv ?t1 ''/kubeconfig'' = Inr (Config 0)"
    and h3: "newFromConfig startEnv ?t2 (Config 0) = Inr (Client 1)"
    and h4: "resourceGet startEnv ?t3 (Client 1) ''peeringrequests'' ''foreign''
               = Inr (PeeringRequestObj examplePeeringRequest)"
    and h5: "secretsGet startEnv ?t4 (Client 0)
               (SecretReference.Namespace (SpecKubeConfigRef examplePeeringRequest))
               (SecretReference.Name (SpecKubeConfigRef examplePeeringRequest)) = Inr exampleSecret"
    and a0: "createAdvertisementClient startEnv ?t5 [] (Some exampleSecret)
               = Inl (StatusError StatusReasonUnknown)"
    and a1: "createAdvertisementClient startEnv (?t5 @ [?a, ?p]) [] (Some exampleSecret)
               = Inl (StatusError StatusReasonConflict)"
    and a2: "createAdvertisementClient startEnv (?t5 @ [?a, ?p, ?a, ?p]) [] (Some exampleSecret)
               = Inl (ErrorString ''third attempt failed'')"
    by (simp_all add: startEnv_def)
  from StartBroadcaster_remote_client_retries [OF refl refl refl refl refl refl refl,
      of startEnv exampleSecret _ "''home''" "''/kubeconfig''" "''foreign''" "''serviceaccount''" "[]"
         "Client 0" "Config 0" "Client 1" examplePeeringRequest]
    h1 h2 h3 h4 h5 a0 a1 a2
  have "StartBroadcaster startEnv ''home'' ''/kubeconfig'' ''foreign'' ''serviceaccount'' [] =
      (Returned (Some (ErrorString ''third attempt failed'')), ?t5 @ [?a, ?p, ?a, ?p, ?a, ?p])"
    by blast
  with h1 a2 show ?thesis
    by (simp add: examplePeeringRequest_def)
qed

section \<open>GenerateAdvertisement: the watcher is started once\<close>

text \<open>
  No function that an iteration calls starts the watcher, so the only start is the one of
  \<^verbatim>\<open>once.Do\<close>.
\<close>

lemma SendSecret_watch:
  "filter isWatchStart (snd (SendSecretToForeignCluster e b secret t)) = filter isWatchStart t"
  by (simp add: SendSecretToForeignCluster_def callSecretsGet_def callSecretsUpdate_def
      callSecretsCreate_def Let_def split: sum.splits)

lemma GetResourcesForAdv_watch:
  "filter isWatchStart (snd (GetResourcesForAdv d e b t)) = filter isWatchStart t"
  by (simp add: GetResourcesForAdv_def callNodesList_def callPodsList_def Let_def
      split: sum.splits prod.splits)

lemma CreateAdvertisement_watch:
  "filter isWatchStart (snd (CreateAdvertisement d e b advRes t)) = filter isWatchStart t"
  by (simp add: CreateAdvertisement_def callTimeNow_def Let_def)

lemma SendAdvertisement_watch:
  "filter isWatchStart (snd (SendAdvertisementToForeignCluster d e b advToCreate t))
     = filter isWatchStart t"
  by (simp add: SendAdvertisementToForeignCluster_def callResourceGet_def callResourceUpdate_def
      callSecretsGet_def callResourceCreate_def callSecretsUpdate_def Let_def
      split: sum.splits Object.splits)

lemma publish_watch:
  "filter isWatchStart (snd (publish d e b t)) = filter isWatchStart t"
proof -
  have s: "filter isWatchStart t1 = filter isWatchStart t0"
    if "SendSecretToForeignCluster e b0 secret t0 = (r, t1)" for b0 secret t0 r t1
    using SendSecret_watch [of e b0 secret t0] that by simp
  have g: "filter isWatchStart t1 = filter isWatchStart t0"
    if "GetResourcesForAdv d e b0 t0 = (r, t1)" for b0 t0 r t1
    using GetResourcesForAdv_watch [of d e b0 t0] that by simp
  have c: "filter isWatchStart t1 = filter isWatchStart t0"
    if "CreateAdvertisement d e b0 advRes t0 = (r, t1)" for b0 advRes t0 r t1
    using CreateAdvertisement_watch [of d e b0 advRes t0] that by simp
  have a: "filter isWatchStart t1 = filter isWatchStart t0"
    if "SendAdvertisementToForeignCluster d e b0 adv t0 = (r, t1)" for b0 adv t0 r t1
    using SendAdvertisement_watch [of d e b0 adv t0] that by simp
  show ?thesis
    unfolding publish_def
    by (auto simp: Let_def split: prod.splits sum.splits dest!: s g c a)
qed

lemma iteration_cases:
  assumes "publish d e ((broadcaster s)\<lparr>ClusterConfig := watchedConfig e (trace s)\<rparr>) (trace s)
             = ((sent, b1), t4)"
  shows "filter isWatchStart t4 = filter isWatchStart (trace s)"
    and "sent = Ok adv \<Longrightarrow> \<not> onceDone s \<Longrightarrow>
           trace (iteration d e s) = t4 @ [GoWatchAdvertisement (Name adv), Sleep (10 * Minute)]
           \<and> onceDone (iteration d e s)"
    and "sent = Ok adv \<Longrightarrow> onceDone s \<Longrightarrow>
           trace (iteration d e s) = t4 @ [Sleep (10 * Minute)] \<and> onceDone (iteration d e s)"
    and "sent = Err err \<Longrightarrow>
           trace (iteration d e s) = t4 @ [Sleep (1 * Minute)]
           \<and> onceDone (iteration d e s) = onceDone s"
    and "sent = Panic \<Longrightarrow>
           trace (iteration d e s) = t4 \<and> onceDone (iteration d e s) = onceDone s"
  using publish_watch [of d e "(broadcaster s)\<lparr>ClusterConfig := watchedConfig e (trace s)\<rparr>" "trace s"]
    assms
  by (simp_all add: iteration_def Let_def onceDo_def callSleep_def)

lemma iteration_watch_count:
  "length (filter isWatchStart (trace (iteration d e s))) + (if onceDone s then 1 else 0)
     = length (filter isWatchStart (trace s)) + (if onceDone (iteration d e s) then 1 else 0)"
proof -
  obtain sent b1 t4 where
    p: "publish d e ((broadcaster s)\<lparr>ClusterConfig := watchedConfig e (trace s)\<rparr>) (trace s)
          = ((sent, b1), t4)"
    by (metis surj_pair)
  show ?thesis
    using iteration_cases [OF p]
    by (cases sent) (auto split: if_splits)
qed

lemma iteration_once_stays: "onceDone s \<Longrightarrow> onceDone (iteration d e s)"
proof -
  assume o: "onceDone s"
  obtain sent b1 t4 where
    p: "publish d e ((broadcaster s)\<lparr>ClusterConfig := watchedConfig e (trace s)\<rparr>) (trace s)
          = ((sent, b1), t4)"
    by (metis surj_pair)
  show ?thesis
    using iteration_cases [OF p] o by (cases sent) auto
qed

lemma iteration_watch_closed:
  assumes "onceDone s"
  shows "filter isWatchStart (trace (iteration d e s)) = filter isWatchStart (trace s)"
proof -
  obtain sent b1 t4 where
    p: "publish d e ((broadcaster s)\<lparr>ClusterConfig := watchedConfig e (trace s)\<rparr>) (trace s)
          = ((sent, b1), t4)"
    by (metis surj_pair)
  show ?thesis
    using iteration_cases [OF p] assms by (cases sent) auto
qed

lemma GenerateAdvertisement_watch_count:
  "length (filter isWatchStart (trace (GenerateAdvertisement n d e s))) + (if onceDone s then 1 else 0)
     = length (filter isWatchStart (trace s))
       + (if onceDone (GenerateAdvertisement n d e s) then 1 else 0)"
proof (induction n arbitrary: s)
  case 0
  then show ?case by simp
next
  case (Suc n)
  show ?case
  proof (cases "panicked s")
    case True
    then show ?thesis by simp
  next
    case False
    from Suc.IH [of "iteration d e s"] iteration_watch_count [of d e s] False
    show ?thesis by (simp split: if_splits)
  qed
qed

lemma GenerateAdvertisement_once_stays:
  "onceDone s \<Longrightarrow> onceDone (GenerateAdvertisement n d e s)"
  by (induction n arbitrary: s) (auto simp: iteration_once_stays)

lemma GenerateAdvertisement_watch_closed:
  "onceDone s \<Longrightarrow>
     filter isWatchStart (trace (GenerateAdvertisement n d e s)) = filter isWatchStart (trace s)"
  by (induction n arbitrary: s) (auto simp: iteration_watch_closed iteration_once_stays)

lemma GenerateAdvertisement_Suc_end:
  "GenerateAdvertisement (Suc n) d e s =
     (if panicked (GenerateAdvertisement n d e s) then GenerateAdvertisement n d e s
      else iteration d e (GenerateAdvertisement n d e s))"
proof (induction n arbitrary: s)
  case 0
  then show ?case by simp
next
  case (Suc n)
  have stuck: "GenerateAdvertisement m d e s' = s'" if "panicked s'" for m s'
    using that by (cases m) auto
  show ?case
  proof (cases "panicked s")
    case True
    then show ?thesis by (simp add: stuck)
  next
    case False
    then show ?thesis
      using Suc.IH [of "iteration d e s"] by simp
  qed
qed

lemma publish_example:
  "\<exists>adv b1 t4.
      publish exampleDeps publishingEnv
        (exampleBroadcaster\<lparr>ClusterConfig := watchedConfig publishingEnv []\<rparr>) []
        = ((Ok adv, b1), t4) \<and> Name adv = ''adv-home''"
  by (simp add: publish_def SendSecretToForeignCluster_def GetResourcesForAdv_def
      CreateAdvertisement_def SendAdvertisementToForeignCluster_def
      callSecretsGet_def callSecretsUpdate_def callNodesList_def callPodsList_def
      callTimeNow_def callResourceGet_def callResourceCreate_def
      publishingEnv_def storeEnv_def storeAfter_def failingEnv_def exampleBroadcaster_def
      exampleSecret_def exampleDeps_def AdvertisementPrefix_def PodSucceeded_def PodFailed_def Let_def split_beta)

lemma publish_example_failing:
  "publish exampleDeps failingEnv
     (exampleBroadcaster\<lparr>ClusterConfig := watchedConfig failingEnv []\<rparr>) []
     = ((Err (ErrorString ''unreachable''),
         exampleBroadcaster\<lparr>ClusterConfig := watchedConfig failingEnv []\<rparr>),
        [SecretsGet (Client 2) ''liqo'' ''vk-secret-home''])"
  by (simp add: publish_def SendSecretToForeignCluster_def callSecretsGet_def failingEnv_def
      exampleBroadcaster_def exampleSecret_def)

lemma publish_example_second:
  "\<exists>adv b1 t4.
      publish exampleDeps publishingEnv
        ((broadcaster (iteration exampleDeps publishingEnv (initialLoopState exampleBroadcaster [])))
           \<lparr>ClusterConfig := watchedConfig publishingEnv
              (trace (iteration exampleDeps publishingEnv (initialLoopState exampleBroadcaster [])))\<rparr>)
        (trace (iteration exampleDeps publishingEnv (initialLoopState exampleBroadcaster [])))
        = ((Ok adv, b1), t4) \<and> Name adv = ''adv-home''"
  by (simp add: iteration_def initialLoopState_def onceDo_def callSleep_def
      publish_def SendSecretToForeignCluster_def GetResourcesForAdv_def
      CreateAdvertisement_def SendAdvertisementToForeignCluster_def
      callSecretsGet_def callSecretsUpdate_def callNodesList_def callPodsList_def
      callTimeNow_def callResourceGet_def callResourceCreate_def callResourceUpdate_def
      publishingEnv_def storeEnv_def storeAfter_def failingEnv_def exampleBroadcaster_def
      exampleSecret_def exampleDeps_def AdvertisementPrefix_def PodSucceeded_def PodFailed_def setObjectMeta_def
      Let_def split_beta)

text \<open>
  Claim C9. In every run of \<^verbatim>\<open>GenerateAdvertisement\<close>, after any number of iterations, the
  watcher has been started once if the latch is closed and not at all if it is open, so at
  most once. Once the latch is closed it stays closed and no later iteration starts the
  watcher. The state after one more iteration is the iteration applied to the state before
  (unless an iteration has panicked), and an iteration does the following: the steps that
  publish start no watcher; when they succeed and the latch is open, the watcher is started
  for the advertisement's name right after them and the latch is closed; when they succeed
  and the latch is closed, nothing is started; when they fail, nothing is started and the
  latch is left as it is. The latch is open when the loop starts, so the start happens
  after the first successful publish.
\<close>

theorem GenerateAdvertisement_watch_started_once:
  assumes "s0 = initialLoopState b t"
    and "cfg = (broadcaster s)\<lparr>ClusterConfig := watchedConfig e (trace s)\<rparr>"
  shows "length (filter isWatchStart (trace (GenerateAdvertisement n d e s0)))
           = length (filter isWatchStart t)
             + (if onceDone (GenerateAdvertisement n d e s0) then 1 else 0)
       \<and> (onceDone s \<longrightarrow>
            onceDone (GenerateAdvertisement n d e s)
            \<and> filter isWatchStart (trace (GenerateAdvertisement n d e s))
                = filter isWatchStart (trace s))
       \<and> GenerateAdvertisement (Suc n) d e s =
            (if panicked (GenerateAdvertisement n d e s) then GenerateAdvertisement n d e s
             else iteration d e (GenerateAdvertisement n d e s))
       \<and> filter isWatchStart (snd (publish d e cfg (trace s))) = filter isWatchStart (trace s)
       \<and> (publish d e cfg (trace s) = ((Ok adv, b1), t4) \<and> \<not> onceDone s \<longrightarrow>
            trace (iteration d e s) = t4 @ [GoWatchAdvertisement (Name adv), Sleep (10 * Minute)]
            \<and> onceDone (iteration d e s))
       \<and> (publish d e cfg (trace s) = ((Ok adv, b1), t4) \<and> onceDone s \<longrightarrow>
            trace (iteration d e s) = t4 @ [Sleep (10 * Minute)]
            \<and> onceDone (iteration d e s))
       \<and> (publish d e cfg (trace s) = ((Err err, b1), t4) \<longrightarrow>
            trace (iteration d e s) = t4 @ [Sleep (1 * Minute)]
            \<and> onceDone (iteration d e s) = onceDone s)"
proof -
  have count: "length (filter isWatchStart (trace (GenerateAdvertisement n d e s0)))
      = length (filter isWatchStart t)
        + (if onceDone (GenerateAdvertisement n d e s0) then 1 else 0)"
    using GenerateAdvertisement_watch_count [of n d e s0]
    by (simp add: assms(1) initialLoopState_def)
  have ok_open: "trace (iteration d e s) = t4 @ [GoWatchAdvertisement (Name adv), Sleep (10 * Minute)]
      \<and> onceDone (iteration d e s)"
    if "publish d e cfg (trace s) = ((Ok adv, b1), t4)" "\<not> onceDone s"
    using iteration_cases(2) [OF that(1) [unfolded assms(2)] refl that(2)] .
  have ok_closed: "trace (iteration d e s) = t4 @ [Sleep (10 * Minute)]
      \<and> onceDone (iteration d e s)"
    if "publish d e cfg (trace s) = ((Ok adv, b1), t4)" "onceDone s"
    using iteration_cases(3) [OF that(1) [unfolded assms(2)] refl that(2)] .
  have failed: "trace (iteration d e s) = t4 @ [Sleep (1 * Minute)]
      \<and> onceDone (iteration d e s) = onceDone s"
    if "publish d e cfg (trace s) = ((Err err, b1), t4)"
    using iteration_cases(4) [OF that(1) [unfolded assms(2)] refl] .
  from count GenerateAdvertisement_once_stays [of s n d e]
    GenerateAdvertisement_watch_closed [of s n d e]
    GenerateAdvertisement_Suc_end [of n d e s] publish_watch [of d e cfg "trace s"]
    ok_open ok_closed failed
  show ?thesis by blast
qed

theorem GenerateAdvertisement_watch_started_once_witness:
  "\<not> onceDone (initialLoopState exampleBroadcaster [])
   \<and> (\<exists>adv b1 t4.
        publish exampleDeps publishingEnv
          (exampleBroadcaster\<lparr>ClusterConfig := watchedConfig publishingEnv []\<rparr>) []
          = ((Ok adv, b1), t4) \<and> Name adv = ''adv-home'')
   \<and> filter isWatchStart (trace (GenerateAdvertisement 1 exampleDeps publishingEnv
          (initialLoopState exampleBroadcaster []))) = [GoWatchAdvertisement ''adv-home'']
   \<and> onceDone (GenerateAdvertisement 1 exampleDeps publishingEnv
          (initialLoopState exampleBroadcaster []))
   \<and> (\<exists>t4. trace (GenerateAdvertisement 2 exampleDeps publishingEnv
                 (initialLoopState exampleBroadcaster [])) = t4 @ [Sleep (10 * Minute)]
           \<and> filter isWatchStart t4 = [GoWatchAdvertisement ''adv-home''])
   \<and> filter isWatchStart (trace (GenerateAdvertisement 5 exampleDeps publishingEnv
          (initialLoopState exampleBroadcaster []))) = [GoWatchAdvertisement ''adv-home'']
   \<and> trace (GenerateAdvertisement 1 exampleDeps failingEnv (initialLoopState exampleBroadcaster []))
       = [SecretsGet (Client 2) ''liqo'' ''vk-secret-home'', Sleep (1 * Minute)]
   \<and> \<not> onceDone (GenerateAdvertisement 1 exampleDeps failingEnv
          (initialLoopState exampleBroadcaster []))"
proof -
  let ?s0 = "initialLoopState exampleBroadcaster []"
  let ?cfg = "(broadcaster ?s0)\<lparr>ClusterConfig := watchedConfig publishingEnv (trace ?s0)\<rparr>"
  let ?s1 = "iteration exampleDeps publishingEnv ?s0"
  let ?cfg1 = "(broadcaster ?s1)\<lparr>ClusterConfig := watchedConfig publishingEnv (trace ?s1)\<rparr>"
  have s0: "broadcaster ?s0 = exampleBroadcaster" "trace ?s0 = []" "\<not> onceDone ?s0"
    "\<not> panicked ?s0"
    by (simp_all add: initialLoopState_def)
  note th = GenerateAdvertisement_watch_started_once [OF refl refl]
  \<comment> \<open>the first iteration: the publish succeeds and the latch is open\<close>
  from publish_example obtain adv b1 t4 where
    p: "publish exampleDeps publishingEnv ?cfg (trace ?s0) = ((Ok adv, b1), t4)"
    and n: "Name adv = ''adv-home''"
    unfolding s0 by blast
  from th [where d = exampleDeps and e = publishingEnv and s = ?s0] p
  have t4: "filter isWatchStart t4 = []"
    by (simp add: s0)
  from th [where d = exampleDeps and e = publishingEnv and s = ?s0 and adv = adv and ?b1.0 = b1
      and ?t4.0 = t4] p s0(3)
  have step: "trace ?s1 = t4 @ [GoWatchAdvertisement (Name adv), Sleep (10 * Minute)]"
    and closed: "onceDone ?s1"
    by blast+
  from step t4 n have one: "filter isWatchStart (trace ?s1) = [GoWatchAdvertisement ''adv-home'']"
    by simp
  have np1: "\<not> panicked ?s1"
    using p s0 by (simp add: iteration_def Let_def onceDo_def)
  \<comment> \<open>the second iteration: the publish succeeds and the latch is closed\<close>
  from publish_example_second obtain adv2 b2 t4' where
    p2: "publish exampleDeps publishingEnv ?cfg1 (trace ?s1) = ((Ok adv2, b2), t4')"
    by blast
  from th [where d = exampleDeps and e = publishingEnv and s = ?s1] p2
  have t4': "filter isWatchStart t4' = filter isWatchStart (trace ?s1)"
    by simp
  from th [where d = exampleDeps and e = publishingEnv and s = ?s1 and adv = adv2 and ?b1.0 = b2
      and ?t4.0 = t4'] p2 closed
  have step2: "trace (iteration exampleDeps publishingEnv ?s1) = t4' @ [Sleep (10 * Minute)]"
    by blast
  \<comment> \<open>later iterations\<close>
  from th [where d = exampleDeps and e = publishingEnv and s = ?s1 and n = 4] closed
  have later: "filter isWatchStart (trace (GenerateAdvertisement 4 exampleDeps publishingEnv ?s1))
      = filter isWatchStart (trace ?s1)"
    by blast
  have g1: "GenerateAdvertisement 1 exampleDeps publishingEnv ?s0 = ?s1"
    using s0(4) by simp
  have g2: "GenerateAdvertisement 2 exampleDeps publishingEnv ?s0
      = iteration exampleDeps publishingEnv ?s1"
    using s0(4) np1 by (simp add: eval_nat_numeral)
  have g5: "GenerateAdvertisement 5 exampleDeps publishingEnv ?s0
      = GenerateAdvertisement 4 exampleDeps publishingEnv ?s1"
    using s0(4) GenerateAdvertisement.simps(2) [of 4 exampleDeps publishingEnv ?s0]
    by (simp add: eval_nat_numeral)
  \<comment> \<open>an iteration whose publish fails\<close>
  let ?cfgf = "(broadcaster ?s0)\<lparr>ClusterConfig := watchedConfig failingEnv (trace ?s0)\<rparr>"
  have pf: "publish exampleDeps failingEnv ?cfgf (trace ?s0)
      = ((Err (ErrorString ''unreachable''),
          exampleBroadcaster\<lparr>ClusterConfig := watchedConfig failingEnv []\<rparr>),
         [SecretsGet (Client 2) ''liqo'' ''vk-secret-home''])"
    unfolding s0 by (rule publish_example_failing)
  from th [where d = exampleDeps and e = failingEnv and s = ?s0
      and err = "ErrorString ''unreachable''"
      and ?b1.0 = "exampleBroadcaster\<lparr>ClusterConfig := watchedConfig failingEnv []\<rparr>"
      and ?t4.0 = "[SecretsGet (Client 2) ''liqo'' ''vk-secret-home'']"] pf s0(3)
  have failed: "trace (iteration exampleDeps failingEnv ?s0)
      = [SecretsGet (Client 2) ''liqo'' ''vk-secret-home''] @ [Sleep (1 * Minute)]"
    and still_open: "\<not> onceDone (iteration exampleDeps failingEnv ?s0)"
    by blast+
  have gf: "GenerateAdvertisement 1 exampleDeps failingEnv ?s0 = iteration exampleDeps failingEnv ?s0"
    using s0(4) by simp
  have second: "\<exists>t4. trace (GenerateAdvertisement 2 exampleDeps publishingEnv ?s0)
        = t4 @ [Sleep (10 * Minute)]
      \<and> filter isWatchStart t4 = [GoWatchAdvertisement ''adv-home'']"
    unfolding g2 using step2 t4' one by auto
  from publish_example s0(3) one closed second later failed still_open
  show ?thesis
    unfolding g1 g5 gf by simp
qed

section \<open>SendAdvertisementToForeignCluster: what the update path returns\<close>



end
